theory Spec2Isabelle
  imports Complex_Main
begin

section \<open>Python values\<close>

text \<open>
  The recorder receives decoded JSON. A decoded value is \<open>None\<close>, a \<open>bool\<close>, an
  \<open>int\<close>, a \<open>float\<close>, a \<open>str\<close>, a \<open>list\<close> or a \<open>dict\<close>; a dict is an
  association list with distinct keys, read with \<open>map_of\<close>.

  A Python float is modelled by the real number it denotes; the non-finite values
  (\<open>nan\<close>, \<open>inf\<close>) are outside the model. Float arithmetic rounds its result to
  binary64 and is not computed here: it is a parameter of the model (see the library
  functions). Strings are ASCII.
\<close>

datatype json =
    JNull
  | JBool bool
  | JInt int
  | JFloat real
  | JStr string
  | JArr "json list"
  | JObj "(string \<times> json) list"

type_synonym pydict = "(string \<times> json) list"

text \<open>The exceptions the modelled code can raise.\<close>

datatype error =
    RuntimeError string
  | TypeError
  | ValueError
  | KeyError
  | IndexError
  | AttributeError
  | OverflowError
  | OSError
  | ValidationError

text \<open>Sequencing of two computations, the first of which may raise.\<close>

definition and_then :: "error + 'a \<Rightarrow> ('a \<Rightarrow> error + 'b) \<Rightarrow> error + 'b" where
  "and_then x f = (case x of Inl e \<Rightarrow> Inl e | Inr v \<Rightarrow> f v)"

text \<open>\<open>bool(v)\<close>: the truth value Python gives a decoded JSON value.\<close>

fun py_truthy :: "json \<Rightarrow> bool" where
  "py_truthy JNull = False"
| "py_truthy (JBool b) = b"
| "py_truthy (JInt n) = (n \<noteq> 0)"
| "py_truthy (JFloat r) = (r \<noteq> 0)"
| "py_truthy (JStr s) = (s \<noteq> [])"
| "py_truthy (JArr xs) = (xs \<noteq> [])"
| "py_truthy (JObj kvs) = (kvs \<noteq> [])"

text \<open>\<open>a or b\<close> on values (both operands here are free of effects).\<close>

definition py_or :: "json \<Rightarrow> json \<Rightarrow> json" where
  "py_or a b = (if py_truthy a then a else b)"

text \<open>\<open>d.get(k, default)\<close> on a dict.\<close>

definition dict_get :: "pydict \<Rightarrow> string \<Rightarrow> json \<Rightarrow> json" where
  "dict_get d k dflt = (case map_of d k of None \<Rightarrow> dflt | Some v \<Rightarrow> v)"

text \<open>\<open>s.lower()\<close> on ASCII strings.\<close>

definition lower_char :: "char \<Rightarrow> char" where
  "lower_char c =
     (case map_of (zip ''ABCDEFGHIJKLMNOPQRSTUVWXYZ'' ''abcdefghijklmnopqrstuvwxyz'') c of
        None \<Rightarrow> c
      | Some l \<Rightarrow> l)"

definition lower :: "string \<Rightarrow> string" where
  "lower s = map lower_char s"

section \<open>Library functions\<close>

text \<open>
  A \<open>datetime\<close>: the wall-clock reading in microseconds since 1970-01-01T00:00:00 and
  the UTC offset in seconds of an aware value; \<open>None\<close> for a naive one.
\<close>

record datetime =
  wall_us :: int
  utcoffset :: "int option"

text \<open>
  The code calls parsers, validators and float arithmetic that belong to Python and to
  pydantic, not to this repository. They are parameters of the model:
  \<^item> \<open>json_loads\<close>: \<open>json.loads\<close>, \<open>None\<close> when it raises;
  \<^item> \<open>float_of_str\<close>: \<open>float(s)\<close> on a string, \<open>None\<close> when it raises \<open>ValueError\<close>;
  \<^item> \<open>repr_of\<close>: \<open>str(v)\<close> for a float, a list or a dict;
  \<^item> \<open>fromisoformat\<close>: \<open>datetime.fromisoformat\<close>, \<open>None\<close> when it raises \<open>ValueError\<close>;
  \<^item> \<open>validate_float\<close>, \<open>validate_bool\<close>: pydantic's coercion of a value other than
    \<open>None\<close> to a \<open>float\<close> or \<open>bool\<close> field, \<open>None\<close> when validation fails;
  \<^item> \<open>float_sub a b\<close>, \<open>float_div a b\<close>: the binary64 results of \<open>a - b\<close> and of
    the true division \<open>a / b\<close>;
  \<^item> \<open>float_round x n\<close>: \<open>round(x, n)\<close> on a float;
  \<^item> \<open>utcfromtimestamp\<close>: \<open>datetime.utcfromtimestamp\<close>, which returns a naive
    datetime or raises.
\<close>

record pylib =
  json_loads :: "string \<Rightarrow> json option"
  float_of_str :: "string \<Rightarrow> real option"
  repr_of :: "json \<Rightarrow> string"
  fromisoformat :: "string \<Rightarrow> datetime option"
  validate_float :: "json \<Rightarrow> real option"
  validate_bool :: "json \<Rightarrow> bool option"
  float_sub :: "real \<Rightarrow> real \<Rightarrow> real"
  float_div :: "real \<Rightarrow> real \<Rightarrow> real"
  float_round :: "real \<Rightarrow> nat \<Rightarrow> real"
  utcfromtimestamp :: "real \<Rightarrow> error + datetime"

section \<open>Models (models.py)\<close>

record token =
  token_id :: string
  outcome :: string
  price :: real

record market =
  market_id :: string
  title :: string
  volume_24h :: real
  liquidity :: real
  end_time :: string
  tokens :: "token list"
  outcomes :: "string list option"
  best_bid :: "real option"
  best_ask :: "real option"
  last_trade_price :: "real option"
  competitive :: "real option"
  numeric_id :: "string option"
  slug :: "string option"
  condition_id :: "string option"
  start_time :: "string option"
  active :: "bool option"
  closed :: "bool option"
  archived :: "bool option"
  description :: "string option"
  category :: "string option"
  tags :: "string list option"
  image :: "string option"
  resolution_source :: "string option"
  resolved :: "bool option"
  resolution_outcome :: "string option"

record market_snapshot =
  ms_timestamp :: datetime
  ms_market_id :: string
  ms_title :: string
  ms_yes_price :: real
  ms_no_price :: real
  ms_best_bid :: "real option"
  ms_best_ask :: "real option"
  ms_volume_24h :: "real option"
  ms_liquidity :: "real option"
  ms_category :: "string option"
  ms_end_time :: "string option"
  ms_active :: "bool option"

text \<open>
  The two computed fields of \<open>MarketSnapshot\<close>:
  \<open>round(1.0 - self.yes_price - self.no_price, 6)\<close> and
  \<open>round(self.best_ask - self.best_bid, 6)\<close>, in float arithmetic.
\<close>

definition parity_gap :: "pylib \<Rightarrow> market_snapshot \<Rightarrow> real" where
  "parity_gap lib s =
     float_round lib (float_sub lib (float_sub lib 1 (ms_yes_price s)) (ms_no_price s)) 6"

definition spread :: "pylib \<Rightarrow> market_snapshot \<Rightarrow> real option" where
  "spread lib s =
     (if ms_best_bid s \<noteq> None \<and> ms_best_ask s \<noteq> None
      then Some (float_round lib (float_sub lib (the (ms_best_ask s)) (the (ms_best_bid s))) 6)
      else None)"

record outcome_snapshot =
  os_timestamp :: datetime
  os_market_id :: string
  os_outcome :: string
  os_price :: real
  os_token_id :: "string option"

record order_book_snapshot =
  ob_timestamp :: datetime
  ob_market_id :: string
  ob_token_id :: string
  ob_side :: string
  ob_level :: int
  ob_price :: real
  ob_size :: real

record trade_snapshot =
  ts_timestamp :: datetime
  ts_market_id :: string
  ts_token_id :: string
  ts_price :: real
  ts_size :: real
  ts_side :: "string option"

record resolution_snapshot =
  rs_timestamp :: datetime
  rs_market_id :: string
  rs_resolved :: bool
  rs_resolution_outcome :: "string option"
  rs_resolution_source :: "string option"

record price_change_event =
  pc_timestamp :: datetime
  pc_market_id :: string
  pc_token_id :: string
  pc_price :: real
  pc_size :: real
  pc_side :: string
  pc_best_bid :: "real option"
  pc_best_ask :: "real option"

section \<open>Snapshot builders (recorder.py)\<close>

text \<open>
  The inner loop of \<open>create_snapshots\<close>: it runs over the tokens with the pair
  \<open>(yes_price, no_price)\<close>, which starts at \<open>(0.0, 0.0)\<close>; a later token with the same
  label overwrites an earlier one.
\<close>

fun yes_no_prices :: "token list \<Rightarrow> real \<times> real \<Rightarrow> real \<times> real" where
  "yes_no_prices [] (y, n) = (y, n)"
| "yes_no_prices (t # ts) (y, n) =
     (if lower (outcome t) = ''yes'' then yes_no_prices ts (price t, n)
      else if lower (outcome t) = ''no'' then yes_no_prices ts (y, price t)
      else yes_no_prices ts (y, n))"

text \<open>
  The outer loop: \<open>timestamp\<close> is read once from the clock before the loop and is a
  parameter here; \<open>snapshots\<close> is the accumulator.
\<close>

fun create_snapshots_loop ::
  "datetime \<Rightarrow> market list \<Rightarrow> market_snapshot list \<Rightarrow> market_snapshot list" where
  "create_snapshots_loop timestamp [] snapshots = snapshots"
| "create_snapshots_loop timestamp (m # ms) snapshots =
     (let (yes_price, no_price) = yes_no_prices (tokens m) (0, 0)
      in if length (tokens m) = 2 \<and> 0 < yes_price
         then create_snapshots_loop timestamp ms
                (snapshots @
                 [\<lparr>ms_timestamp = timestamp,
                   ms_market_id = market_id m,
                   ms_title = title m,
                   ms_yes_price = yes_price,
                   ms_no_price = no_price,
                   ms_best_bid = best_bid m,
                   ms_best_ask = best_ask m,
                   ms_volume_24h = Some (volume_24h m),
                   ms_liquidity = Some (liquidity m),
                   ms_category = category m,
                   ms_end_time = Some (end_time m),
                   ms_active = active m\<rparr>])
         else create_snapshots_loop timestamp ms snapshots)"

definition create_snapshots :: "datetime \<Rightarrow> market list \<Rightarrow> market_snapshot list" where
  "create_snapshots timestamp markets = create_snapshots_loop timestamp markets []"

text \<open>\<open>create_outcome_snapshots\<close>: the loop over the tokens of one market, then over the markets.\<close>

fun outcome_tokens_loop ::
  "datetime \<Rightarrow> market \<Rightarrow> token list \<Rightarrow> outcome_snapshot list \<Rightarrow> outcome_snapshot list" where
  "outcome_tokens_loop timestamp m [] snapshots = snapshots"
| "outcome_tokens_loop timestamp m (t # ts) snapshots =
     outcome_tokens_loop timestamp m ts
       (snapshots @
        [\<lparr>os_timestamp = timestamp,
          os_market_id = market_id m,
          os_outcome = outcome t,
          os_price = price t,
          os_token_id = Some (token_id t)\<rparr>])"

fun create_outcome_snapshots_loop ::
  "datetime \<Rightarrow> market list \<Rightarrow> outcome_snapshot list \<Rightarrow> outcome_snapshot list" where
  "create_outcome_snapshots_loop timestamp [] snapshots = snapshots"
| "create_outcome_snapshots_loop timestamp (m # ms) snapshots =
     (if 3 \<le> length (tokens m)
      then create_outcome_snapshots_loop timestamp ms
             (outcome_tokens_loop timestamp m (tokens m) snapshots)
      else create_outcome_snapshots_loop timestamp ms snapshots)"

definition create_outcome_snapshots ::
  "datetime \<Rightarrow> market list \<Rightarrow> outcome_snapshot list" where
  "create_outcome_snapshots timestamp markets =
     create_outcome_snapshots_loop timestamp markets []"

section \<open>Operations on values\<close>

text \<open>
  \<open>float(v)\<close>. An \<open>int\<close> that rounds to \<open>2 ^ 1024\<close> or beyond has no float.
\<close>

fun py_float :: "pylib \<Rightarrow> json \<Rightarrow> error + real" where
  "py_float lib JNull = Inl TypeError"
| "py_float lib (JBool b) = Inr (if b then 1 else 0)"
| "py_float lib (JInt n) =
     (if 2 ^ 1024 - 2 ^ 970 \<le> \<bar>n\<bar> then Inl OverflowError else Inr (of_int n))"
| "py_float lib (JFloat r) = Inr r"
| "py_float lib (JStr s) =
     (case float_of_str lib s of None \<Rightarrow> Inl ValueError | Some r \<Rightarrow> Inr r)"
| "py_float lib (JArr xs) = Inl TypeError"
| "py_float lib (JObj kvs) = Inl TypeError"

text \<open>\<open>str(v)\<close>; the decimal digits of an \<open>int\<close> are computed here.\<close>

fun digits_of :: "nat \<Rightarrow> string" where
  "digits_of n =
     (if n < 10 then [''0123456789'' ! n]
      else digits_of (n div 10) @ [''0123456789'' ! (n mod 10)])"

definition str_of_int :: "int \<Rightarrow> string" where
  "str_of_int n = (if n < 0 then CHR ''-'' # digits_of (nat (- n)) else digits_of (nat n))"

fun py_str :: "pylib \<Rightarrow> json \<Rightarrow> string" where
  "py_str lib JNull = ''None''"
| "py_str lib (JBool b) = (if b then ''True'' else ''False'')"
| "py_str lib (JInt n) = str_of_int n"
| "py_str lib (JStr s) = s"
| "py_str lib v = repr_of lib v"

text \<open>\<open>len(v)\<close>, \<open>v[i]\<close> with an \<open>int\<close>, \<open>v[k]\<close> with a \<open>str\<close>, \<open>v[:n]\<close>, \<open>iter(v)\<close>
  and \<open>v.get(k, default)\<close> on a value of any shape.\<close>

fun py_len :: "json \<Rightarrow> error + nat" where
  "py_len (JArr xs) = Inr (length xs)"
| "py_len (JStr s) = Inr (length s)"
| "py_len (JObj kvs) = Inr (length kvs)"
| "py_len v = Inl TypeError"

fun py_getitem :: "json \<Rightarrow> nat \<Rightarrow> error + json" where
  "py_getitem (JArr xs) i = (if i < length xs then Inr (xs ! i) else Inl IndexError)"
| "py_getitem (JStr s) i = (if i < length s then Inr (JStr [s ! i]) else Inl IndexError)"
| "py_getitem (JObj kvs) i = Inl KeyError"
| "py_getitem v i = Inl TypeError"

fun py_subscript :: "json \<Rightarrow> string \<Rightarrow> error + json" where
  "py_subscript (JObj kvs) k = (case map_of kvs k of None \<Rightarrow> Inl KeyError | Some v \<Rightarrow> Inr v)"
| "py_subscript v k = Inl TypeError"

fun py_slice_to :: "json \<Rightarrow> nat \<Rightarrow> error + json" where
  "py_slice_to (JArr xs) n = Inr (JArr (take n xs))"
| "py_slice_to (JStr s) n = Inr (JStr (take n s))"
| "py_slice_to v n = Inl TypeError"

fun py_iter :: "json \<Rightarrow> error + json list" where
  "py_iter (JArr xs) = Inr xs"
| "py_iter (JStr s) = Inr (map (\<lambda>c. JStr [c]) s)"
| "py_iter (JObj kvs) = Inr (map (\<lambda>kv. JStr (fst kv)) kvs)"
| "py_iter v = Inl TypeError"

fun py_get :: "json \<Rightarrow> string \<Rightarrow> json \<Rightarrow> error + json" where
  "py_get (JObj kvs) k dflt = Inr (dict_get kvs k dflt)"
| "py_get v k dflt = Inl AttributeError"

text \<open>pydantic's validation of a field: a \<open>str\<close> field takes a string only.\<close>

fun validate_str :: "json \<Rightarrow> error + string" where
  "validate_str (JStr s) = Inr s"
| "validate_str v = Inl ValidationError"

fun validate_opt_str :: "json \<Rightarrow> error + string option" where
  "validate_opt_str JNull = Inr None"
| "validate_opt_str (JStr s) = Inr (Some s)"
| "validate_opt_str v = Inl ValidationError"

fun validate_str_list :: "json list \<Rightarrow> error + string list" where
  "validate_str_list [] = Inr []"
| "validate_str_list (x # xs) =
     and_then (validate_str x) (\<lambda>s.
     and_then (validate_str_list xs) (\<lambda>ss. Inr (s # ss)))"

fun validate_opt_str_list :: "json \<Rightarrow> error + string list option" where
  "validate_opt_str_list JNull = Inr None"
| "validate_opt_str_list (JArr xs) = and_then (validate_str_list xs) (\<lambda>ss. Inr (Some ss))"
| "validate_opt_str_list v = Inl ValidationError"

definition validate_opt_float :: "pylib \<Rightarrow> json \<Rightarrow> error + real option" where
  "validate_opt_float lib v =
     (if v = JNull then Inr None
      else case validate_float lib v of
             None \<Rightarrow> Inl ValidationError
           | Some r \<Rightarrow> Inr (Some r))"

definition validate_opt_bool :: "pylib \<Rightarrow> json \<Rightarrow> error + bool option" where
  "validate_opt_bool lib v =
     (if v = JNull then Inr None
      else case validate_bool lib v of
             None \<Rightarrow> Inl ValidationError
           | Some b \<Rightarrow> Inr (Some b))"

section \<open>Payload normalizer (gamma_client.py)\<close>

text \<open>
  \<open>json.loads(x) if isinstance(x, str) else x\<close> under a bare \<open>except\<close> that
  substitutes the empty list.
\<close>

definition decode_field :: "pylib \<Rightarrow> json \<Rightarrow> json" where
  "decode_field lib v =
     (case v of
        JStr s \<Rightarrow> (case json_loads lib s of None \<Rightarrow> JArr [] | Some j \<Rightarrow> j)
      | _ \<Rightarrow> v)"

text \<open>\<open>Token(token_id=..., outcome=..., price=...)\<close>; \<open>price\<close> is a float already.\<close>

definition new_token :: "json \<Rightarrow> json \<Rightarrow> real \<Rightarrow> error + token" where
  "new_token tid oc p =
     and_then (validate_str tid) (\<lambda>a.
     and_then (validate_str oc) (\<lambda>b.
     Inr \<lparr>token_id = a, outcome = b, price = p\<rparr>))"

text \<open>
  The loop \<open>for i, outcome in enumerate(outcomes or [])\<close> of \<open>_parse_market\<close>: \<open>i\<close> is
  the running index, \<open>toks\<close> the list \<open>tokens\<close> built so far.
\<close>

fun build_tokens_loop ::
  "pylib \<Rightarrow> json \<Rightarrow> json \<Rightarrow> nat \<Rightarrow> json list \<Rightarrow> token list \<Rightarrow> error + token list" where
  "build_tokens_loop lib prices token_ids i [] toks = Inr toks"
| "build_tokens_loop lib prices token_ids i (oc # rest) toks =
     and_then (py_len prices) (\<lambda>n.
     and_then (if i < n then and_then (py_getitem prices i) (py_float lib) else Inr 0) (\<lambda>p.
     and_then (py_len token_ids) (\<lambda>k.
     and_then (if i < k then py_getitem token_ids i else Inr (JStr [])) (\<lambda>tid.
     and_then (new_token tid oc p) (\<lambda>t.
     build_tokens_loop lib prices token_ids (Suc i) rest (toks @ [t]))))))"

definition build_tokens :: "pylib \<Rightarrow> json \<Rightarrow> json \<Rightarrow> json \<Rightarrow> error + token list" where
  "build_tokens lib outcome_labels prices token_ids =
     and_then (py_iter (py_or outcome_labels (JArr []))) (\<lambda>items.
     build_tokens_loop lib prices token_ids 0 items [])"

text \<open>The value passed as \<open>market_id\<close>: the first truthy one of the three candidates.\<close>

definition market_id_of :: "pylib \<Rightarrow> pydict \<Rightarrow> json" where
  "market_id_of lib data =
     py_or (dict_get data ''conditionId'' (JStr []))
       (py_or (dict_get data ''condition_id'' (JStr []))
          (JStr (py_str lib (dict_get data ''id'' (JStr [])))))"

definition tags_of :: "pylib \<Rightarrow> pydict \<Rightarrow> json" where
  "tags_of lib data =
     (let tags_raw = dict_get data ''tags'' (JArr [])
      in case tags_raw of
           JStr s \<Rightarrow> (case json_loads lib s of None \<Rightarrow> JArr [] | Some j \<Rightarrow> j)
         | _ \<Rightarrow> if py_truthy tags_raw then tags_raw else JArr [])"

text \<open>
  \<open>_parse_market\<close>: the three arrays are decoded, the tokens built, the arguments of
  \<open>Market(...)\<close> evaluated in the order written (the two \<open>float\<close> calls may raise), and
  the fields validated.
\<close>

definition parse_market :: "pylib \<Rightarrow> pydict \<Rightarrow> error + market" where
  "parse_market lib data =
     (let outcome_labels = decode_field lib (dict_get data ''outcomes'' (JStr ''[]''));
          prices = decode_field lib (dict_get data ''outcomePrices'' (JStr ''[]''));
          token_ids = decode_field lib (dict_get data ''clobTokenIds'' (JStr ''[]''))
      in
      and_then (build_tokens lib outcome_labels prices token_ids) (\<lambda>toks.
      and_then (py_float lib (dict_get data ''volume'' (JInt 0))) (\<lambda>vol.
      and_then (py_float lib (dict_get data ''liquidity'' (JInt 0))) (\<lambda>liq.
      and_then (validate_str (market_id_of lib data)) (\<lambda>v_market_id.
      and_then (validate_str (dict_get data ''question'' (JStr []))) (\<lambda>v_title.
      and_then (validate_str
                  (py_or (dict_get data ''endDate'' (JStr []))
                         (dict_get data ''end_date_iso'' (JStr [])))) (\<lambda>v_end_time.
      and_then (validate_opt_str_list outcome_labels) (\<lambda>v_outcomes.
      and_then (validate_opt_float lib (dict_get data ''bestBid'' JNull)) (\<lambda>v_best_bid.
      and_then (validate_opt_float lib (dict_get data ''bestAsk'' JNull)) (\<lambda>v_best_ask.
      and_then (validate_opt_float lib (dict_get data ''lastTradePrice'' JNull)) (\<lambda>v_last.
      and_then (validate_opt_float lib (dict_get data ''competitive'' JNull)) (\<lambda>v_comp.
      and_then (validate_opt_str (dict_get data ''slug'' (JStr []))) (\<lambda>v_slug.
      and_then (validate_opt_str
                  (py_or (dict_get data ''conditionId'' (JStr []))
                         (dict_get data ''condition_id'' (JStr [])))) (\<lambda>v_condition_id.
      and_then (validate_opt_str
                  (py_or (dict_get data ''startDate'' (JStr []))
                         (dict_get data ''start_date_iso'' (JStr [])))) (\<lambda>v_start_time.
      and_then (validate_opt_bool lib (dict_get data ''active'' JNull)) (\<lambda>v_active.
      and_then (validate_opt_bool lib (dict_get data ''closed'' JNull)) (\<lambda>v_closed.
      and_then (validate_opt_bool lib (dict_get data ''archived'' JNull)) (\<lambda>v_archived.
      and_then (validate_opt_str (dict_get data ''description'' JNull)) (\<lambda>v_description.
      and_then (validate_opt_str (dict_get data ''category'' JNull)) (\<lambda>v_category.
      and_then (validate_opt_str_list (tags_of lib data)) (\<lambda>v_tags.
      and_then (validate_opt_str (dict_get data ''image'' JNull)) (\<lambda>v_image.
      and_then (validate_opt_str (dict_get data ''resolutionSource'' JNull)) (\<lambda>v_source.
      and_then (validate_opt_bool lib (dict_get data ''resolved'' JNull)) (\<lambda>v_resolved.
      and_then (validate_opt_str (dict_get data ''outcome'' JNull)) (\<lambda>v_res_outcome.
      Inr \<lparr>market_id = v_market_id,
           title = v_title,
           volume_24h = vol,
           liquidity = liq,
           end_time = v_end_time,
           tokens = toks,
           outcomes = v_outcomes,
           best_bid = v_best_bid,
           best_ask = v_best_ask,
           last_trade_price = v_last,
           competitive = v_comp,
           numeric_id = Some (py_str lib (dict_get data ''id'' (JStr []))),
           slug = v_slug,
           condition_id = v_condition_id,
           start_time = v_start_time,
           active = v_active,
           closed = v_closed,
           archived = v_archived,
           description = v_description,
           category = v_category,
           tags = v_tags,
           image = v_image,
           resolution_source = v_source,
           resolved = v_resolved,
           resolution_outcome = v_res_outcome\<rparr>)))))))))))))))))))))))))"

section \<open>Order books (recorder.py)\<close>

text \<open>
  One of the two loops \<open>for level, bid in enumerate(bids)\<close> of
  \<open>create_orderbook_snapshots\<close>; \<open>bid["price"]\<close> and \<open>bid["size"]\<close> are subscripts,
  so a missing key raises.
\<close>

fun orderbook_loop ::
  "pylib \<Rightarrow> datetime \<Rightarrow> string \<Rightarrow> string \<Rightarrow> string \<Rightarrow> nat \<Rightarrow> json list \<Rightarrow>
   order_book_snapshot list \<Rightarrow> error + order_book_snapshot list" where
  "orderbook_loop lib timestamp mid tid side level [] snapshots = Inr snapshots"
| "orderbook_loop lib timestamp mid tid side level (entry # rest) snapshots =
     and_then (and_then (py_subscript entry ''price'') (py_float lib)) (\<lambda>p.
     and_then (and_then (py_subscript entry ''size'') (py_float lib)) (\<lambda>sz.
     orderbook_loop lib timestamp mid tid side (Suc level) rest
       (snapshots @
        [\<lparr>ob_timestamp = timestamp,
          ob_market_id = mid,
          ob_token_id = tid,
          ob_side = side,
          ob_level = int level,
          ob_price = p,
          ob_size = sz\<rparr>])))"

definition create_orderbook_snapshots ::
  "pylib \<Rightarrow> datetime \<Rightarrow> string \<Rightarrow> string \<Rightarrow> pydict \<Rightarrow> int \<Rightarrow>
   error + order_book_snapshot list" where
  "create_orderbook_snapshots lib timestamp mid tid book_data levels =
     (let bids0 = dict_get book_data ''bids'' (JArr []);
          asks0 = dict_get book_data ''asks'' (JArr [])
      in
      and_then (if 0 < levels then py_slice_to bids0 (nat levels) else Inr bids0) (\<lambda>bids.
      and_then (if 0 < levels then py_slice_to asks0 (nat levels) else Inr asks0) (\<lambda>asks.
      and_then (py_iter bids) (\<lambda>bid_items.
      and_then (orderbook_loop lib timestamp mid tid ''bid'' 0 bid_items []) (\<lambda>snapshots.
      and_then (py_iter asks) (\<lambda>ask_items.
      orderbook_loop lib timestamp mid tid ''ask'' 0 ask_items snapshots))))))"

section \<open>Streaming decoders (recorder.py)\<close>

text \<open>\<open>s.replace("Z", "+00:00")\<close> replaces every \<open>Z\<close>.\<close>

definition replace_Z :: "string \<Rightarrow> string" where
  "replace_Z s = concat (map (\<lambda>c. if c = CHR ''Z'' then ''+00:00'' else [c]) s)"

text \<open>
  \<open>_parse_ws_timestamp\<close>; \<open>now\<close> is the reading of the clock. A \<open>bool\<close> is an
  \<open>int\<close> for \<open>isinstance\<close>; \<open>ts / 1000\<close> is a float division.
\<close>

fun parse_ws_timestamp :: "pylib \<Rightarrow> datetime \<Rightarrow> json \<Rightarrow> error + datetime" where
  "parse_ws_timestamp lib now JNull = Inr now"
| "parse_ws_timestamp lib now (JBool b) =
     utcfromtimestamp lib (float_div lib (if b then 1 else 0) 1000)"
| "parse_ws_timestamp lib now (JInt n) = utcfromtimestamp lib (float_div lib (of_int n) 1000)"
| "parse_ws_timestamp lib now (JFloat r) = utcfromtimestamp lib (float_div lib r 1000)"
| "parse_ws_timestamp lib now (JStr s) =
     (case fromisoformat lib (replace_Z s) of
        None \<Rightarrow> Inr now
      | Some d \<Rightarrow> Inr d)"
| "parse_ws_timestamp lib now (JArr xs) = Inr now"
| "parse_ws_timestamp lib now (JObj kvs) = Inr now"

text \<open>\<open>float(v) if v else None\<close>.\<close>

definition float_if_truthy :: "pylib \<Rightarrow> json \<Rightarrow> error + real option" where
  "float_if_truthy lib v =
     (if py_truthy v then and_then (py_float lib v) (\<lambda>r. Inr (Some r)) else Inr None)"

text \<open>\<open>PriceChangeEvent(...)\<close>: the three \<open>str\<close> fields are validated.\<close>

definition new_price_change_event ::
  "datetime \<Rightarrow> json \<Rightarrow> json \<Rightarrow> real \<Rightarrow> real \<Rightarrow> json \<Rightarrow> real option \<Rightarrow> real option \<Rightarrow>
   error + price_change_event" where
  "new_price_change_event timestamp mid tid p sz sd bb ba =
     and_then (validate_str mid) (\<lambda>v_mid.
     and_then (validate_str tid) (\<lambda>v_tid.
     and_then (validate_str sd) (\<lambda>v_side.
     Inr \<lparr>pc_timestamp = timestamp,
          pc_market_id = v_mid,
          pc_token_id = v_tid,
          pc_price = p,
          pc_size = sz,
          pc_side = v_side,
          pc_best_bid = bb,
          pc_best_ask = ba\<rparr>)))"

text \<open>The loop \<open>for change in message.get("price_changes", [])\<close> of \<open>handle_price_change\<close>.\<close>

fun price_change_loop ::
  "pylib \<Rightarrow> datetime \<Rightarrow> json \<Rightarrow> json \<Rightarrow> json \<Rightarrow> json list \<Rightarrow>
   price_change_event list \<Rightarrow> error + price_change_event list" where
  "price_change_loop lib timestamp mid bb ba [] events = Inr events"
| "price_change_loop lib timestamp mid bb ba (change # rest) events =
     and_then (py_get change ''asset_id'' (JStr [])) (\<lambda>tid.
     and_then (and_then (py_get change ''price'' (JInt 0)) (py_float lib)) (\<lambda>p.
     and_then (and_then (py_get change ''size'' (JInt 0)) (py_float lib)) (\<lambda>sz.
     and_then (py_get change ''side'' (JStr [])) (\<lambda>sd.
     and_then (float_if_truthy lib bb) (\<lambda>v_bid.
     and_then (float_if_truthy lib ba) (\<lambda>v_ask.
     and_then (new_price_change_event timestamp mid tid p sz sd v_bid v_ask) (\<lambda>e.
     price_change_loop lib timestamp mid bb ba rest (events @ [e]))))))))"

definition handle_price_change ::
  "pylib \<Rightarrow> datetime \<Rightarrow> pydict \<Rightarrow> error + price_change_event list" where
  "handle_price_change lib now message =
     and_then (parse_ws_timestamp lib now (dict_get message ''timestamp'' JNull)) (\<lambda>timestamp.
     and_then (py_iter (dict_get message ''price_changes'' (JArr []))) (\<lambda>changes.
     price_change_loop lib timestamp
       (dict_get message ''market'' (JStr []))
       (dict_get message ''best_bid'' JNull)
       (dict_get message ''best_ask'' JNull)
       changes []))"

section \<open>Persistence store (recorder.py)\<close>

text \<open>
  One table per record kind; a row lists the columns in the order of the \<open>INSERT\<close>
  statement. The connection \<open>_db\<close> is \<open>None\<close> until \<open>init_db\<close> has run; the
  content of an open database is the content of its tables.
\<close>

type_synonym market_row =
  "datetime \<times> string \<times> string \<times> string option \<times> real \<times> real \<times> real \<times> real option \<times>
   real option \<times> real option \<times> real option \<times> real option \<times> string option \<times> bool option"

type_synonym outcome_row = "datetime \<times> string \<times> string \<times> real \<times> string option"

type_synonym orderbook_row = "datetime \<times> string \<times> string \<times> string \<times> int \<times> real \<times> real"

type_synonym trade_row = "datetime \<times> string \<times> string \<times> real \<times> real \<times> string option"

type_synonym resolution_row = "datetime \<times> string \<times> bool \<times> string option \<times> string option"

type_synonym price_change_row =
  "datetime \<times> string \<times> string \<times> real \<times> real \<times> string \<times> real option \<times> real option"

record database =
  market_snapshots :: "market_row list"
  outcome_snapshots :: "outcome_row list"
  orderbook_snapshots :: "orderbook_row list"
  trade_snapshots :: "trade_row list"
  resolution_snapshots :: "resolution_row list"
  price_change_events :: "price_change_row list"

record recorder =
  db :: "database option"
  running :: bool

definition new_recorder :: recorder where
  "new_recorder = \<lparr>db = None, running = False\<rparr>"

text \<open>\<open>init_db\<close> opens the file at \<open>db_path\<close>, whose tables are \<open>disk\<close>; \<open>close\<close>.\<close>

definition init_db :: "database \<Rightarrow> recorder \<Rightarrow> recorder" where
  "init_db disk r = r\<lparr>db := Some disk\<rparr>"

definition close :: "recorder \<Rightarrow> recorder" where
  "close r = r\<lparr>db := None\<rparr>"

definition not_initialized :: error where
  "not_initialized = RuntimeError ''Database not initialized. Call init_db() first.''"

definition market_row_of :: "pylib \<Rightarrow> market_snapshot \<Rightarrow> market_row" where
  "market_row_of lib s =
     (ms_timestamp s, ms_market_id s, ms_title s, ms_category s, ms_yes_price s,
      ms_no_price s, parity_gap lib s, ms_best_bid s, ms_best_ask s, spread lib s,
      ms_volume_24h s, ms_liquidity s, ms_end_time s, ms_active s)"

definition outcome_row_of :: "outcome_snapshot \<Rightarrow> outcome_row" where
  "outcome_row_of s =
     (os_timestamp s, os_market_id s, os_outcome s, os_price s, os_token_id s)"

definition orderbook_row_of :: "order_book_snapshot \<Rightarrow> orderbook_row" where
  "orderbook_row_of s =
     (ob_timestamp s, ob_market_id s, ob_token_id s, ob_side s, ob_level s,
      ob_price s, ob_size s)"

definition trade_row_of :: "trade_snapshot \<Rightarrow> trade_row" where
  "trade_row_of s =
     (ts_timestamp s, ts_market_id s, ts_token_id s, ts_price s, ts_size s, ts_side s)"

definition resolution_row_of :: "resolution_snapshot \<Rightarrow> resolution_row" where
  "resolution_row_of s =
     (rs_timestamp s, rs_market_id s, rs_resolved s, rs_resolution_outcome s,
      rs_resolution_source s)"

definition price_change_row_of :: "price_change_event \<Rightarrow> price_change_row" where
  "price_change_row_of e =
     (pc_timestamp e, pc_market_id e, pc_token_id e, pc_price e, pc_size e, pc_side e,
      pc_best_bid e, pc_best_ask e)"

text \<open>
  The six save operations. Each tests \<open>if not self._db\<close> first, inserts one row per
  record in order, and commits. \<open>save_snapshots\<close> evaluates the two computed fields
  of each snapshot, hence its library parameter.
\<close>

definition save_snapshots ::
  "pylib \<Rightarrow> recorder \<Rightarrow> market_snapshot list \<Rightarrow> error + recorder" where
  "save_snapshots lib r snapshots =
     (case db r of
        None \<Rightarrow> Inl not_initialized
      | Some d \<Rightarrow>
          Inr (r\<lparr>db := Some (d\<lparr>market_snapshots :=
                 foldl (\<lambda>rows s. rows @ [market_row_of lib s]) (market_snapshots d) snapshots\<rparr>)\<rparr>))"

definition save_outcome_snapshots ::
  "recorder \<Rightarrow> outcome_snapshot list \<Rightarrow> error + recorder" where
  "save_outcome_snapshots r snapshots =
     (case db r of
        None \<Rightarrow> Inl not_initialized
      | Some d \<Rightarrow>
          Inr (r\<lparr>db := Some (d\<lparr>outcome_snapshots :=
                 foldl (\<lambda>rows s. rows @ [outcome_row_of s]) (outcome_snapshots d) snapshots\<rparr>)\<rparr>))"

definition save_orderbook_snapshots ::
  "recorder \<Rightarrow> order_book_snapshot list \<Rightarrow> error + recorder" where
  "save_orderbook_snapshots r snapshots =
     (case db r of
        None \<Rightarrow> Inl not_initialized
      | Some d \<Rightarrow>
          Inr (r\<lparr>db := Some (d\<lparr>orderbook_snapshots :=
                 foldl (\<lambda>rows s. rows @ [orderbook_row_of s]) (orderbook_snapshots d) snapshots\<rparr>)\<rparr>))"

definition save_trade_snapshots :: "recorder \<Rightarrow> trade_snapshot list \<Rightarrow> error + recorder" where
  "save_trade_snapshots r snapshots =
     (case db r of
        None \<Rightarrow> Inl not_initialized
      | Some d \<Rightarrow>
          Inr (r\<lparr>db := Some (d\<lparr>trade_snapshots :=
                 foldl (\<lambda>rows s. rows @ [trade_row_of s]) (trade_snapshots d) snapshots\<rparr>)\<rparr>))"

definition save_resolution_snapshots ::
  "recorder \<Rightarrow> resolution_snapshot list \<Rightarrow> error + recorder" where
  "save_resolution_snapshots r snapshots =
     (case db r of
        None \<Rightarrow> Inl not_initialized
      | Some d \<Rightarrow>
          Inr (r\<lparr>db := Some (d\<lparr>resolution_snapshots :=
                 foldl (\<lambda>rows s. rows @ [resolution_row_of s]) (resolution_snapshots d) snapshots\<rparr>)\<rparr>))"

text \<open>\<open>save_price_change_events\<close> returns where the other five raise.\<close>

definition save_price_change_events ::
  "recorder \<Rightarrow> price_change_event list \<Rightarrow> error + recorder" where
  "save_price_change_events r events =
     (case db r of
        None \<Rightarrow> Inr r
      | Some d \<Rightarrow>
          Inr (r\<lparr>db := Some (d\<lparr>price_change_events :=
                 foldl (\<lambda>rows e. rows @ [price_change_row_of e]) (price_change_events d) events\<rparr>)\<rparr>))"

section \<open>A library instance for evaluation\<close>

text \<open>
  To run the model on concrete inputs the library parameters are instantiated on the
  inputs used below: decimal literals \<open>[-]digits[.digits]\<close> for \<open>float\<close>; timestamps
  \<open>YYYY-MM-DDTHH:MM:SS\<close> with an optional offset \<open>+HH:MM\<close> or \<open>-HH:MM\<close> for
  \<open>fromisoformat\<close> (which returns an aware datetime exactly when an offset is given);
  exact subtraction, division and rounding to \<open>n\<close> decimals (ties to even) for the float
  arithmetic, which is the binary64 result wherever the exact result is a binary64
  number, as it is at the quotients \<open>n / 1000\<close> evaluated below; and
  \<open>utcfromtimestamp\<close> as on Linux with a 64-bit \<open>time_t\<close>: \<open>OverflowError\<close> outside
  \<open>time_t\<close>, \<open>OSError\<close> where \<open>gmtime\<close> fails, \<open>ValueError\<close> outside the years 1
  to 9999. No theorem about all inputs depends on this instance.
\<close>

definition py_round :: "real \<Rightarrow> int" where
  "py_round x =
     (let f = \<lfloor>x\<rfloor>; d = x - of_int f
      in if d < 1 / 2 then f
         else if 1 / 2 < d then f + 1
         else if even f then f else f + 1)"

definition round_decimals :: "real \<Rightarrow> nat \<Rightarrow> real" where
  "round_decimals x n = of_int (py_round (x * 10 ^ n)) / 10 ^ n"

definition basic_utcfromtimestamp :: "real \<Rightarrow> error + datetime" where
  "basic_utcfromtimestamp x =
     (let us = py_round (x * 1000000)
      in if x < - (2 ^ 63) \<or> 2 ^ 63 \<le> x then Inl OverflowError
         else if x < - 67768040609740800 \<or> 67768036191676800 \<le> x then Inl OSError
         else if - 62135596800000000 \<le> us \<and> us \<le> 253402300799999999
         then Inr \<lparr>wall_us = us, utcoffset = None\<rparr>
         else Inl ValueError)"

definition digit_of :: "char \<Rightarrow> nat option" where
  "digit_of c =
     (if 48 \<le> (of_char c :: nat) \<and> (of_char c :: nat) \<le> 57
      then Some (of_char c - 48) else None)"

fun number_acc :: "string \<Rightarrow> nat \<Rightarrow> nat option" where
  "number_acc [] acc = Some acc"
| "number_acc (c # cs) acc =
     (case digit_of c of None \<Rightarrow> None | Some d \<Rightarrow> number_acc cs (10 * acc + d))"

definition number :: "string \<Rightarrow> nat option" where
  "number s = (if s = [] then None else number_acc s 0)"

definition dec_unsigned :: "string \<Rightarrow> real option" where
  "dec_unsigned s =
     (let ip = takeWhile (\<lambda>c. c \<noteq> CHR ''.'') s;
          rest = dropWhile (\<lambda>c. c \<noteq> CHR ''.'') s
      in case number ip of
           None \<Rightarrow> None
         | Some a \<Rightarrow>
             (if rest = [] then Some (of_nat a)
              else case number (tl rest) of
                     None \<Rightarrow> None
                   | Some b \<Rightarrow> Some (of_nat a + of_nat b / 10 ^ length (tl rest))))"

definition dec_float :: "string \<Rightarrow> real option" where
  "dec_float s =
     (case s of
        [] \<Rightarrow> None
      | c # cs \<Rightarrow>
          if c = CHR ''-'' then map_option uminus (dec_unsigned cs) else dec_unsigned s)"

definition is_leap :: "nat \<Rightarrow> bool" where
  "is_leap y = (y mod 4 = 0 \<and> (y mod 100 \<noteq> 0 \<or> y mod 400 = 0))"

definition days_in_month :: "nat \<Rightarrow> nat \<Rightarrow> nat" where
  "days_in_month y m =
     (if m = 2 then (if is_leap y then 29 else 28)
      else if m = 4 \<or> m = 6 \<or> m = 9 \<or> m = 11 then 30 else 31)"

text \<open>Days from 1970-01-01 to the given date of the proleptic Gregorian calendar.\<close>

definition days_from_civil :: "nat \<Rightarrow> nat \<Rightarrow> nat \<Rightarrow> int" where
  "days_from_civil y m d =
     (let y' = (if m \<le> 2 then int y - 1 else int y);
          era = y' div 400;
          yoe = y' - era * 400;
          mp = (int m + 9) mod 12;
          doy = (153 * mp + 2) div 5 + int d - 1;
          doe = yoe * 365 + yoe div 4 - yoe div 100 + doy
      in era * 146097 + doe - 719468)"

definition iso_offset :: "string \<Rightarrow> int option option" where
  "iso_offset s =
     (if s = [] then Some None
      else if length s = 6 \<and> (s ! 0 = CHR ''+'' \<or> s ! 0 = CHR ''-'') \<and> s ! 3 = CHR '':''
      then (case (number (take 2 (drop 1 s)), number (take 2 (drop 4 s))) of
              (Some h, Some m) \<Rightarrow>
                if h < 24 \<and> m < 60
                then Some (Some ((if s ! 0 = CHR ''-'' then - 1 else 1) * (int h * 3600 + int m * 60)))
                else None
            | _ \<Rightarrow> None)
      else None)"

definition iso_basic :: "string \<Rightarrow> datetime option" where
  "iso_basic s =
     (if 19 \<le> length s \<and> s ! 4 = CHR ''-'' \<and> s ! 7 = CHR ''-'' \<and> s ! 10 = CHR ''T''
         \<and> s ! 13 = CHR '':'' \<and> s ! 16 = CHR '':''
      then (case (number (take 4 s), number (take 2 (drop 5 s)), number (take 2 (drop 8 s)),
                  number (take 2 (drop 11 s)), number (take 2 (drop 14 s)),
                  number (take 2 (drop 17 s)), iso_offset (drop 19 s)) of
              (Some y, Some m, Some d, Some hh, Some mi, Some ss, Some off) \<Rightarrow>
                if 1 \<le> y \<and> 1 \<le> m \<and> m \<le> 12 \<and> 1 \<le> d \<and> d \<le> days_in_month y m
                   \<and> hh < 24 \<and> mi < 60 \<and> ss < 60
                then Some \<lparr>wall_us =
                             (days_from_civil y m d * 86400
                              + int hh * 3600 + int mi * 60 + int ss) * 1000000,
                           utcoffset = off\<rparr>
                else None
            | _ \<Rightarrow> None)
      else None)"

definition basic_validate_float :: "json \<Rightarrow> real option" where
  "basic_validate_float v =
     (case v of
        JInt n \<Rightarrow> Some (of_int n)
      | JFloat r \<Rightarrow> Some r
      | JStr s \<Rightarrow> dec_float s
      | _ \<Rightarrow> None)"

definition basic_validate_bool :: "json \<Rightarrow> bool option" where
  "basic_validate_bool v = (case v of JBool b \<Rightarrow> Some b | _ \<Rightarrow> None)"

definition basic_lib :: pylib where
  "basic_lib =
     \<lparr>json_loads = (\<lambda>s. if s = ''[]'' then Some (JArr []) else None),
      float_of_str = dec_float,
      repr_of = (\<lambda>v. []),
      fromisoformat = iso_basic,
      validate_float = basic_validate_float,
      validate_bool = basic_validate_bool,
      float_sub = (\<lambda>a b. a - b),
      float_div = (\<lambda>a b. a / b),
      float_round = round_decimals,
      utcfromtimestamp = basic_utcfromtimestamp\<rparr>"

text \<open>A reading of the clock: 2024-06-01T12:00:00, naive.\<close>

definition clock0 :: datetime where
  "clock0 = \<lparr>wall_us = 1717243200000000, utcoffset = None\<rparr>"

section \<open>The words of the specification\<close>

text \<open>
  The yes price of a market as the specification words it: the price of the token whose
  label is \<open>yes\<close> up to case (of the last such token when there are several), and
  \<open>0.0\<close> when no token has that label; likewise the no price.
\<close>

definition yes_price :: "token list \<Rightarrow> real" where
  "yes_price ts =
     (case filter (\<lambda>t. lower (outcome t) = ''yes'') ts of
        [] \<Rightarrow> 0
      | y # ys \<Rightarrow> price (last (y # ys)))"

definition no_price :: "token list \<Rightarrow> real" where
  "no_price ts =
     (case filter (\<lambda>t. lower (outcome t) = ''no'') ts of
        [] \<Rightarrow> 0
      | y # ys \<Rightarrow> price (last (y # ys)))"

text \<open>
  A payload whose fields other than the identity are in order: the tokens are built, the
  two \<open>float\<close> calls return, and every argument of \<open>Market(...)\<close> but \<open>market_id\<close>
  passes validation.
\<close>

definition other_fields_valid :: "pylib \<Rightarrow> pydict \<Rightarrow> bool" where
  "other_fields_valid lib data =
     (\<not> isl (build_tokens lib
               (decode_field lib (dict_get data ''outcomes'' (JStr ''[]'')))
               (decode_field lib (dict_get data ''outcomePrices'' (JStr ''[]'')))
               (decode_field lib (dict_get data ''clobTokenIds'' (JStr ''[]'')))) \<and>
      \<not> isl (py_float lib (dict_get data ''volume'' (JInt 0))) \<and>
      \<not> isl (py_float lib (dict_get data ''liquidity'' (JInt 0))) \<and>
      \<not> isl (validate_str (dict_get data ''question'' (JStr []))) \<and>
      \<not> isl (validate_str (py_or (dict_get data ''endDate'' (JStr []))
                                   (dict_get data ''end_date_iso'' (JStr [])))) \<and>
      \<not> isl (validate_opt_str_list
               (decode_field lib (dict_get data ''outcomes'' (JStr ''[]'')))) \<and>
      \<not> isl (validate_opt_float lib (dict_get data ''bestBid'' JNull)) \<and>
      \<not> isl (validate_opt_float lib (dict_get data ''bestAsk'' JNull)) \<and>
      \<not> isl (validate_opt_float lib (dict_get data ''lastTradePrice'' JNull)) \<and>
      \<not> isl (validate_opt_float lib (dict_get data ''competitive'' JNull)) \<and>
      \<not> isl (validate_opt_str (dict_get data ''slug'' (JStr []))) \<and>
      \<not> isl (validate_opt_str (py_or (dict_get data ''conditionId'' (JStr []))
                                       (dict_get data ''condition_id'' (JStr [])))) \<and>
      \<not> isl (validate_opt_str (py_or (dict_get data ''startDate'' (JStr []))
                                       (dict_get data ''start_date_iso'' (JStr [])))) \<and>
      \<not> isl (validate_opt_bool lib (dict_get data ''active'' JNull)) \<and>
      \<not> isl (validate_opt_bool lib (dict_get data ''closed'' JNull)) \<and>
      \<not> isl (validate_opt_bool lib (dict_get data ''archived'' JNull)) \<and>
      \<not> isl (validate_opt_str (dict_get data ''description'' JNull)) \<and>
      \<not> isl (validate_opt_str (dict_get data ''category'' JNull)) \<and>
      \<not> isl (validate_opt_str_list (tags_of lib data)) \<and>
      \<not> isl (validate_opt_str (dict_get data ''image'' JNull)) \<and>
      \<not> isl (validate_opt_str (dict_get data ''resolutionSource'' JNull)) \<and>
      \<not> isl (validate_opt_bool lib (dict_get data ''resolved'' JNull)) \<and>
      \<not> isl (validate_opt_str (dict_get data ''outcome'' JNull)))"

text \<open>
  The shape of the streaming and order-book inputs (section 6 of the specification): a
  nested change entry is an object whose \<open>asset_id\<close> and \<open>side\<close>, when present, are
  strings and whose \<open>price\<close> and \<open>size\<close>, when present, are values \<open>float\<close> accepts;
  an order-book level is an object with a \<open>price\<close> and a \<open>size\<close> that \<open>float\<close>
  accepts.
\<close>

fun is_str :: "json \<Rightarrow> bool" where
  "is_str (JStr s) = True"
| "is_str v = False"

definition wf_change :: "pylib \<Rightarrow> json \<Rightarrow> bool" where
  "wf_change lib c =
     (case c of
        JObj kvs \<Rightarrow>
          is_str (dict_get kvs ''asset_id'' (JStr [])) \<and>
          \<not> isl (py_float lib (dict_get kvs ''price'' (JInt 0))) \<and>
          \<not> isl (py_float lib (dict_get kvs ''size'' (JInt 0))) \<and>
          is_str (dict_get kvs ''side'' (JStr []))
      | _ \<Rightarrow> False)"

definition wf_level :: "pylib \<Rightarrow> json \<Rightarrow> bool" where
  "wf_level lib entry =
     (\<not> isl (and_then (py_subscript entry ''price'') (py_float lib)) \<and>
      \<not> isl (and_then (py_subscript entry ''size'') (py_float lib)))"

text \<open>
  The levels of one side that depth \<open>d\<close> keeps (\<open>0\<close> and below: all of them), and the
  record emitted for the level at position \<open>fst ie\<close> with entry \<open>snd ie\<close>.
\<close>

definition kept :: "int \<Rightarrow> json list \<Rightarrow> json list" where
  "kept d xs = (if 0 < d then take (nat d) xs else xs)"

definition level_record ::
  "pylib \<Rightarrow> datetime \<Rightarrow> string \<Rightarrow> string \<Rightarrow> string \<Rightarrow> nat \<times> json \<Rightarrow> order_book_snapshot" where
  "level_record lib ts mid tid side ie =
     \<lparr>ob_timestamp = ts,
      ob_market_id = mid,
      ob_token_id = tid,
      ob_side = side,
      ob_level = int (fst ie),
      ob_price = projr (and_then (py_subscript (snd ie) ''price'') (py_float lib)),
      ob_size = projr (and_then (py_subscript (snd ie) ''size'') (py_float lib))\<rparr>"

section \<open>Example inputs\<close>

text \<open>
  A price change event, a market payload with both condition identifiers and a numeric
  id, and the market it is parsed to. Without its first entry the payload has the
  snake-case identifier only, without its first two the numeric id only.
\<close>

definition event0 :: price_change_event where
  "event0 =
     \<lparr>pc_timestamp = clock0,
      pc_market_id = ''0xabc'',
      pc_token_id = ''101'',
      pc_price = 45 / 100,
      pc_size = 10,
      pc_side = ''BUY'',
      pc_best_bid = Some (44 / 100),
      pc_best_ask = Some (46 / 100)\<rparr>"

definition payload0 :: pydict where
  "payload0 =
     [(''conditionId'', JStr ''0xcamel''),
      (''condition_id'', JStr ''0xsnake''),
      (''id'', JInt 12345),
      (''question'', JStr ''Will it rain?''),
      (''volume'', JStr ''1500.5''),
      (''liquidity'', JInt 800),
      (''endDate'', JStr ''2024-12-31''),
      (''outcomes'', JArr [JStr ''Yes'', JStr ''No'']),
      (''outcomePrices'', JArr [JStr ''0.45'', JStr ''0.5'']),
      (''clobTokenIds'', JArr [JStr ''101'', JStr ''102'']),
      (''bestBid'', JFloat (44 / 100)),
      (''active'', JBool True)]"

definition market0 :: market where
  "market0 =
     \<lparr>market_id = ''0xcamel'',
      title = ''Will it rain?'',
      volume_24h = 3001 / 2,
      liquidity = 800,
      end_time = ''2024-12-31'',
      tokens = [\<lparr>token_id = ''101'', outcome = ''Yes'', price = 9 / 20\<rparr>,
                \<lparr>token_id = ''102'', outcome = ''No'', price = 1 / 2\<rparr>],
      outcomes = Some [''Yes'', ''No''],
      best_bid = Some (11 / 25),
      best_ask = None,
      last_trade_price = None,
      competitive = None,
      numeric_id = Some ''12345'',
      slug = Some [],
      condition_id = Some ''0xcamel'',
      start_time = Some [],
      active = Some True,
      closed = None,
      archived = None,
      description = None,
      category = None,
      tags = Some [],
      image = None,
      resolution_source = None,
      resolved = None,
      resolution_outcome = None\<rparr>"

text \<open>
  Three price change messages with two, two and one nested entries: one with best bid and
  ask as decimal strings, one whose best bid is the number 0, one whose best bid is
  \<open>0.0\<close> and whose best ask is the empty string; and an order book with eight bid and
  two ask levels.
\<close>

definition message_ok :: pydict where
  "message_ok =
     [(''event_type'', JStr ''price_change''),
      (''market'', JStr ''0xabc''),
      (''timestamp'', JInt 1700000000000),
      (''best_bid'', JStr ''0.44''),
      (''best_ask'', JStr ''0.46''),
      (''price_changes'',
         JArr [JObj [(''asset_id'', JStr ''101''), (''price'', JStr ''0.45''),
                     (''size'', JStr ''10''), (''side'', JStr ''BUY'')],
               JObj [(''asset_id'', JStr ''102''), (''price'', JStr ''0.55''),
                     (''size'', JInt 20), (''side'', JStr ''SELL'')]])]"

definition message_zero_bid :: pydict where
  "message_zero_bid =
     [(''event_type'', JStr ''price_change''),
      (''market'', JStr ''0xabc''),
      (''timestamp'', JInt 1700000000000),
      (''best_bid'', JInt 0),
      (''best_ask'', JStr ''0.46''),
      (''price_changes'',
         JArr [JObj [(''asset_id'', JStr ''101''), (''price'', JStr ''0.45''),
                     (''size'', JStr ''10''), (''side'', JStr ''BUY'')],
               JObj [(''asset_id'', JStr ''102''), (''price'', JStr ''0.55''),
                     (''size'', JInt 20), (''side'', JStr ''SELL'')]])]"

definition message_empty_ask :: pydict where
  "message_empty_ask =
     [(''event_type'', JStr ''price_change''),
      (''market'', JStr ''0xabc''),
      (''best_bid'', JFloat 0),
      (''best_ask'', JStr []),
      (''price_changes'',
         JArr [JObj [(''asset_id'', JStr ''101''), (''price'', JStr ''0.45''),
                     (''size'', JStr ''10''), (''side'', JStr ''BUY'')]])]"


definition book0 :: pydict where
  "book0 =
     [(''market'', JStr ''0xabc''),
      (''bids'',
         JArr [JObj [(''price'', JStr ''0.44''), (''size'', JStr ''10'')],
               JObj [(''price'', JStr ''0.43''), (''size'', JStr ''10'')],
               JObj [(''price'', JStr ''0.42''), (''size'', JStr ''10'')],
               JObj [(''price'', JStr ''0.41''), (''size'', JStr ''10'')],
               JObj [(''price'', JStr ''0.40''), (''size'', JStr ''10'')],
               JObj [(''price'', JStr ''0.39''), (''size'', JStr ''10'')],
               JObj [(''price'', JStr ''0.38''), (''size'', JStr ''10'')],
               JObj [(''price'', JStr ''0.37''), (''size'', JStr ''10'')]]),
      (''asks'',
         JArr [JObj [(''price'', JStr ''0.46''), (''size'', JInt 5)],
               JObj [(''price'', JFloat (47 / 100)), (''size'', JInt 7)]])]"


section \<open>Sequencing\<close>

lemma and_then_Inr [simp]: "and_then (Inr v) f = f v"
  by (simp add: and_then_def)

lemma and_then_Inl [simp]: "and_then (Inl e) f = Inl e"
  by (simp add: and_then_def)

lemma and_then_eq_Inr: "and_then x f = Inr y \<longleftrightarrow> (\<exists>v. x = Inr v \<and> f v = Inr y)"
  by (cases x) simp_all

lemma not_islD: "\<not> isl x \<Longrightarrow> \<exists>r. x = Inr r"
  by (cases x) simp_all

section \<open>Derived fields\<close>

text \<open>
  The two computed fields are float computations. Independent of the arithmetic is
  when the spread is absent: exactly when the best bid or the best ask is.
\<close>

lemma spread_absent:
  "spread lib s = None \<longleftrightarrow> ms_best_bid s = None \<or> ms_best_ask s = None"
  by (simp add: spread_def)

section \<open>Market snapshots\<close>

text \<open>The token loop computes the yes and the no price of the specification.\<close>

lemma yes_no_prices_fst:
  "fst (yes_no_prices ts (y, n)) =
     (case filter (\<lambda>t. lower (outcome t) = ''yes'') ts of
        [] \<Rightarrow> y
      | z # zs \<Rightarrow> price (last (z # zs)))"
proof (induction ts arbitrary: y n)
  case Nil
  show ?case by simp
next
  case (Cons t ts)
  show ?case
    by (cases "filter (\<lambda>t. lower (outcome t) = ''yes'') ts") (simp_all add: Cons.IH)
qed

lemma yes_no_prices_snd:
  "snd (yes_no_prices ts (y, n)) =
     (case filter (\<lambda>t. lower (outcome t) = ''no'') ts of
        [] \<Rightarrow> n
      | z # zs \<Rightarrow> price (last (z # zs)))"
proof (induction ts arbitrary: y n)
  case Nil
  show ?case by simp
next
  case (Cons t ts)
  show ?case
    by (cases "filter (\<lambda>t. lower (outcome t) = ''no'') ts") (auto simp add: Cons.IH)
qed

lemma yes_no_prices_eq: "yes_no_prices ts (0, 0) = (yes_price ts, no_price ts)"
  by (simp add: prod_eq_iff yes_no_prices_fst yes_no_prices_snd yes_price_def no_price_def)

lemma create_snapshots_loop_eq:
  "create_snapshots_loop ts ms acc =
     acc @ map (\<lambda>m. \<lparr>ms_timestamp = ts,
                   ms_market_id = market_id m,
                   ms_title = title m,
                   ms_yes_price = yes_price (tokens m),
                   ms_no_price = no_price (tokens m),
                   ms_best_bid = best_bid m,
                   ms_best_ask = best_ask m,
                   ms_volume_24h = Some (volume_24h m),
                   ms_liquidity = Some (liquidity m),
                   ms_category = category m,
                   ms_end_time = Some (end_time m),
                   ms_active = active m\<rparr>)
             (filter (\<lambda>m. length (tokens m) = 2 \<and> 0 < yes_price (tokens m)) ms)"
  by (induction ms arbitrary: acc) (simp_all add: yes_no_prices_eq)

text \<open>
  Claim C3. \<open>create_snapshots\<close> emits a MarketSnapshot for a market if and only if the
  market has exactly two tokens and its yes price is greater than 0: the result lists,
  in order, one snapshot for each market that passes this test and nothing for the
  others, so a market with one token or with three or more never produces one.
\<close>

theorem create_snapshots_binary_priced:
  "create_snapshots ts ms =
     map (\<lambda>m. \<lparr>ms_timestamp = ts,
               ms_market_id = market_id m,
               ms_title = title m,
               ms_yes_price = yes_price (tokens m),
               ms_no_price = no_price (tokens m),
               ms_best_bid = best_bid m,
               ms_best_ask = best_ask m,
               ms_volume_24h = Some (volume_24h m),
               ms_liquidity = Some (liquidity m),
               ms_category = category m,
               ms_end_time = Some (end_time m),
               ms_active = active m\<rparr>)
         (filter (\<lambda>m. length (tokens m) = 2 \<and> 0 < yes_price (tokens m)) ms)"
  by (simp add: create_snapshots_def create_snapshots_loop_eq)

text \<open>
  Of four markets (two tokens; three tokens; one token; two tokens with a yes price of
  0) only the first produces a snapshot.
\<close>

lemma create_snapshots_example:
  "create_snapshots clock0
     [market0,
      market0\<lparr>tokens := tokens market0 @ [\<lparr>token_id = ''103'', outcome = ''Maybe'', price = 1 / 20\<rparr>]\<rparr>,
      market0\<lparr>tokens := [\<lparr>token_id = ''101'', outcome = ''Yes'', price = 9 / 20\<rparr>]\<rparr>,
      market0\<lparr>tokens := [\<lparr>token_id = ''101'', outcome = ''YES'', price = 0\<rparr>,
                           \<lparr>token_id = ''102'', outcome = ''NO'', price = 1\<rparr>]\<rparr>] =
   [\<lparr>ms_timestamp = clock0,
     ms_market_id = ''0xcamel'',
     ms_title = ''Will it rain?'',
     ms_yes_price = 9 / 20,
     ms_no_price = 1 / 2,
     ms_best_bid = Some (11 / 25),
     ms_best_ask = None,
     ms_volume_24h = Some (3001 / 2),
     ms_liquidity = Some 800,
     ms_category = None,
     ms_end_time = Some ''2024-12-31'',
     ms_active = Some True\<rparr>]"
  by (simp add: create_snapshots_def market0_def lower_def lower_char_def)

section \<open>Outcome snapshots\<close>

lemma outcome_tokens_loop_eq:
  "outcome_tokens_loop ts m toks acc =
     acc @ map (\<lambda>t. \<lparr>os_timestamp = ts,
                   os_market_id = market_id m,
                   os_outcome = outcome t,
                   os_price = price t,
                   os_token_id = Some (token_id t)\<rparr>) toks"
  by (induction toks arbitrary: acc) simp_all

lemma create_outcome_snapshots_loop_eq:
  "create_outcome_snapshots_loop ts ms acc =
     acc @ concat (map (\<lambda>m. if 3 \<le> length (tokens m)
                           then map (\<lambda>t. \<lparr>os_timestamp = ts,
                                         os_market_id = market_id m,
                                         os_outcome = outcome t,
                                         os_price = price t,
                                         os_token_id = Some (token_id t)\<rparr>) (tokens m)
                           else []) ms)"
  by (induction ms arbitrary: acc) (simp_all add: outcome_tokens_loop_eq)

text \<open>
  Claim C9. \<open>create_outcome_snapshots\<close> emits, for each market with at least three
  tokens, exactly one OutcomeSnapshot per token, in order, carrying the token's outcome
  label, price and token id, and emits nothing for a market with fewer than three tokens.
\<close>

theorem create_outcome_snapshots_per_token:
  "create_outcome_snapshots ts ms =
     concat (map (\<lambda>m. if 3 \<le> length (tokens m)
                     then map (\<lambda>t. \<lparr>os_timestamp = ts,
                                   os_market_id = market_id m,
                                   os_outcome = outcome t,
                                   os_price = price t,
                                   os_token_id = Some (token_id t)\<rparr>) (tokens m)
                     else []) ms)"
  by (simp add: create_outcome_snapshots_def create_outcome_snapshots_loop_eq)

text \<open>A market with two tokens produces nothing, one with three produces three.\<close>

lemma create_outcome_snapshots_example:
  "create_outcome_snapshots clock0
     [market0,
      market0\<lparr>tokens := tokens market0 @ [\<lparr>token_id = ''103'', outcome = ''Maybe'', price = 1 / 20\<rparr>]\<rparr>] =
   [\<lparr>os_timestamp = clock0, os_market_id = ''0xcamel'', os_outcome = ''Yes'',
     os_price = 9 / 20, os_token_id = Some ''101''\<rparr>,
    \<lparr>os_timestamp = clock0, os_market_id = ''0xcamel'', os_outcome = ''No'',
     os_price = 1 / 2, os_token_id = Some ''102''\<rparr>,
    \<lparr>os_timestamp = clock0, os_market_id = ''0xcamel'', os_outcome = ''Maybe'',
     os_price = 1 / 20, os_token_id = Some ''103''\<rparr>]"
  by (simp add: create_outcome_snapshots_def market0_def)

section \<open>Token construction\<close>

lemma build_tokens_loop_eq:
  assumes "\<forall>j. length pre \<le> j \<and> j < length pre + length rest \<and> j < length prices
             \<longrightarrow> \<not> isl (py_float lib (prices ! j))"
  shows "build_tokens_loop lib (JArr prices) (JArr (map JStr ids)) (length pre)
           (map JStr rest) acc =
         Inr (acc @
              map (\<lambda>i. \<lparr>token_id = (if i < length ids then ids ! i else []),
                        outcome = (pre @ rest) ! i,
                        price = (if i < length prices
                                 then projr (py_float lib (prices ! i)) else 0)\<rparr>)
                  [length pre ..< length pre + length rest])"
  using assms
proof (induction rest arbitrary: pre acc)
  case Nil
  show ?case by simp
next
  case (Cons l rest)
  have later: "\<forall>j. length (pre @ [l]) \<le> j \<and> j < length (pre @ [l]) + length rest
                 \<and> j < length prices \<longrightarrow> \<not> isl (py_float lib (prices ! j))"
    using Cons.prems by simp
  have ih: "build_tokens_loop lib (JArr prices) (JArr (map JStr ids)) (Suc (length pre))
              (map JStr rest) acc' =
            Inr (acc' @
              map (\<lambda>i. \<lparr>token_id = (if i < length ids then ids ! i else []),
                        outcome = (pre @ l # rest) ! i,
                        price = (if i < length prices
                                 then projr (py_float lib (prices ! i)) else 0)\<rparr>)
                  [Suc (length pre) ..< Suc (length pre) + length rest])" for acc'
    using Cons.IH [OF later, of acc'] by simp
  have upt: "[length pre ..< length pre + length (l # rest)] =
             length pre # [Suc (length pre) ..< Suc (length pre) + length rest]"
    by (subst upt_rec) simp
  show ?case
  proof (cases "length pre < length prices")
    case True
    then have "\<not> isl (py_float lib (prices ! length pre))"
      using Cons.prems by simp
    then obtain r where r: "py_float lib (prices ! length pre) = Inr r"
      by (cases "py_float lib (prices ! length pre)") simp_all
    show ?thesis
      unfolding upt using True by (simp add: new_token_def r ih)
  next
    case False
    then show ?thesis
      unfolding upt by (simp add: new_token_def ih)
  qed
qed

text \<open>
  Claim C4. For arrays of outcome labels, prices and token ids of any lengths, the
  token construction of the normalizer does not raise: it builds one token per outcome
  label, whose price is the float of the price at the same position, or \<open>0.0\<close> when the
  price array is shorter, and whose token id is the id at the same position, or the empty
  string when the token-id array is shorter. The labels and ids are strings; a price is
  any value \<open>float\<close> accepts, and only the prices at positions below the number of
  labels are read.
\<close>

theorem build_tokens_aligned:
  assumes "list_all (\<lambda>p. \<not> isl (py_float lib p)) (take (length labels) prices)"
  shows "build_tokens lib (JArr (map JStr labels)) (JArr prices) (JArr (map JStr ids)) =
         Inr (map (\<lambda>i. \<lparr>token_id = (if i < length ids then ids ! i else []),
                        outcome = labels ! i,
                        price = (if i < length prices
                                 then projr (py_float lib (prices ! i)) else 0)\<rparr>)
                  [0 ..< length labels])"
proof -
  have "\<forall>j. length ([] :: string list) \<le> j \<and> j < length ([] :: string list) + length labels
          \<and> j < length prices \<longrightarrow> \<not> isl (py_float lib (prices ! j))"
    using assms by (simp add: list_all_length)
  from build_tokens_loop_eq [OF this, of ids "[]"]
  show ?thesis
    by (simp add: build_tokens_def py_or_def)
qed

text \<open>Three labels, two prices (one a string, one a float) and one token id.\<close>

theorem build_tokens_aligned_witness:
  "list_all (\<lambda>p. \<not> isl (py_float basic_lib p))
     (take (length [''Yes'', ''No'', ''Maybe'']) [JStr ''0.45'', JFloat (1 / 2)]) \<and>
   build_tokens basic_lib (JArr (map JStr [''Yes'', ''No'', ''Maybe'']))
       (JArr [JStr ''0.45'', JFloat (1 / 2)]) (JArr (map JStr [''101''])) =
     Inr [\<lparr>token_id = ''101'', outcome = ''Yes'', price = 9 / 20\<rparr>,
          \<lparr>token_id = [], outcome = ''No'', price = 1 / 2\<rparr>,
          \<lparr>token_id = [], outcome = ''Maybe'', price = 0\<rparr>]"
proof -
  have fl: "float_of_str basic_lib ''0.45'' = Some (9 / 20)"
    by (simp add: basic_lib_def dec_float_def dec_unsigned_def number_def digit_of_def)
  have h: "list_all (\<lambda>p. \<not> isl (py_float basic_lib p))
             (take (length [''Yes'', ''No'', ''Maybe'']) [JStr ''0.45'', JFloat (1 / 2)])"
    by (simp add: fl)
  have upt: "[0 ..< 3] = [0, 1, 2]"
    by (simp add: upt_rec)
  show ?thesis
    using h build_tokens_aligned [OF h, of "[''101'']"] by (simp add: fl upt)
qed

section \<open>Market identity\<close>

lemma validate_str_Inr: "validate_str v = Inr s \<Longrightarrow> v = JStr s"
  by (cases v) simp_all

lemma identity_validates:
  assumes "\<not> isl (validate_opt_str (py_or c s))"
  shows "\<exists>v. validate_str (py_or c (py_or s (JStr x))) = Inr v \<and>
             JStr v = (if py_truthy c then c else if py_truthy s then s else JStr x)"
  using assms by (cases c; cases s) (auto simp: py_or_def split: if_splits)

text \<open>
  Claim C5. The identity of a normalized market is resolved by precedence: for every
  payload whose other fields are in order a market is returned, and its \<open>market_id\<close>
  is the value of \<open>conditionId\<close> if that is non-empty (truthy), else the value of
  \<open>condition_id\<close> if that is non-empty, else the string form of \<open>id\<close>; so a payload
  with both condition identifiers populated yields the camel-case one.
\<close>

theorem parse_market_identity:
  assumes "other_fields_valid lib data"
  shows "\<exists>m. parse_market lib data = Inr m \<and>
           JStr (market_id m) =
             (if py_truthy (dict_get data ''conditionId'' (JStr []))
              then dict_get data ''conditionId'' (JStr [])
              else if py_truthy (dict_get data ''condition_id'' (JStr []))
              then dict_get data ''condition_id'' (JStr [])
              else JStr (py_str lib (dict_get data ''id'' (JStr []))))"
proof -
  from assms have cid: "\<not> isl (validate_opt_str
      (py_or (dict_get data ''conditionId'' (JStr [])) (dict_get data ''condition_id'' (JStr []))))"
    by (simp add: other_fields_valid_def)
  from identity_validates [OF cid, of "py_str lib (dict_get data ''id'' (JStr []))"]
  obtain v where v: "validate_str (market_id_of lib data) = Inr v"
    and id: "JStr v =
      (if py_truthy (dict_get data ''conditionId'' (JStr []))
       then dict_get data ''conditionId'' (JStr [])
       else if py_truthy (dict_get data ''condition_id'' (JStr []))
       then dict_get data ''condition_id'' (JStr [])
       else JStr (py_str lib (dict_get data ''id'' (JStr []))))"
    unfolding market_id_of_def by blast
  from assms obtain m where "parse_market lib data = Inr m" and "market_id m = v"
    unfolding other_fields_valid_def parse_market_def Let_def
    by (auto simp: v dest!: not_islD)
  with id show ?thesis
    by auto
qed

text \<open>If a market is returned at all, its identity is the one the precedence gives.\<close>

lemma parse_market_identity_if_parsed:
  assumes "parse_market lib data = Inr m"
  shows "JStr (market_id m) =
     (if py_truthy (dict_get data ''conditionId'' (JStr []))
      then dict_get data ''conditionId'' (JStr [])
      else if py_truthy (dict_get data ''condition_id'' (JStr []))
      then dict_get data ''condition_id'' (JStr [])
      else JStr (py_str lib (dict_get data ''id'' (JStr []))))"
proof -
  from assms obtain v where v: "validate_str (market_id_of lib data) = Inr v"
    and m: "market_id m = v"
    unfolding parse_market_def Let_def and_then_eq_Inr by auto
  from v have "market_id_of lib data = JStr v"
    by (rule validate_str_Inr)
  then show ?thesis
    by (simp add: m market_id_of_def py_or_def split: if_splits)
qed

lemmas payload_evaluation =
  payload0_def dict_get_def basic_lib_def decode_field_def build_tokens_def py_or_def
  new_token_def market_id_of_def tags_of_def validate_opt_float_def validate_opt_bool_def
  dec_float_def dec_unsigned_def number_def digit_of_def basic_validate_float_def
  basic_validate_bool_def str_of_int_def

lemma parse_payload0: "parse_market basic_lib payload0 = Inr market0"
  by (simp add: parse_market_def payload_evaluation market0_def)

text \<open>
  The three branches of the precedence: both condition identifiers present, the
  snake-case one alone, and the numeric id alone.
\<close>

theorem parse_market_identity_witness:
  "(\<exists>m. parse_market basic_lib payload0 = Inr m \<and> market_id m = ''0xcamel'') \<and>
   (\<exists>m. parse_market basic_lib (tl payload0) = Inr m \<and> market_id m = ''0xsnake'') \<and>
   (\<exists>m. parse_market basic_lib (tl (tl payload0)) = Inr m \<and> market_id m = ''12345'')"
proof -
  have camel: "other_fields_valid basic_lib payload0"
    by (simp add: other_fields_valid_def payload_evaluation)
  have snake: "other_fields_valid basic_lib (tl payload0)"
    by (simp add: other_fields_valid_def payload_evaluation)
  have numeric: "other_fields_valid basic_lib (tl (tl payload0))"
    by (simp add: other_fields_valid_def payload_evaluation)
  from parse_market_identity [OF camel] parse_market_identity [OF snake]
    parse_market_identity [OF numeric]
  show ?thesis
    by (simp add: payload0_def dict_get_def str_of_int_def)
qed

section \<open>Streaming timestamps\<close>

text \<open>The timestamp of the example messages, \<open>1700000000000\<close> ms, in the library instance.\<close>

lemma parse_ws_timestamp_1700000000000:
  "parse_ws_timestamp basic_lib now (JInt 1700000000000) =
     Inr \<lparr>wall_us = 1700000000000000, utcoffset = None\<rparr>"
  by (simp add: basic_lib_def basic_utcfromtimestamp_def py_round_def)

text \<open>
  Every branch of the decoder but one returns without raising, and returns the clock
  reading where the code falls back to it.
\<close>

lemma parse_ws_timestamp_fallbacks:
  "parse_ws_timestamp lib now JNull = Inr now"
  "parse_ws_timestamp lib now (JArr xs) = Inr now"
  "parse_ws_timestamp lib now (JObj kvs) = Inr now"
  "fromisoformat lib (replace_Z s) = None \<Longrightarrow> parse_ws_timestamp lib now (JStr s) = Inr now"
  by simp_all

text \<open>
  Claim C6. Decoding a streaming timestamp never raises and yields the current time for
  an absent input, the UTC instant for a number of epoch milliseconds, the same instant
  in the same representation for an ISO-8601 string with a trailing \<open>Z\<close>, and the current
  time for any other shape. The code breaks this twice: the number \<open>10 ^ 18\<close> raises,
  since the numeric branch alone has no fallback; and the string \<open>2024-01-01T00:00:00Z\<close>
  decodes to an aware datetime (UTC offset 0), where the number \<open>1704067200000\<close> of the
  same instant, like every other branch, gives a naive one.
\<close>

theorem parse_ws_timestamp_raises_and_aware:
  "parse_ws_timestamp basic_lib clock0 (JInt 1000000000000000000) = Inl ValueError \<and>
   parse_ws_timestamp basic_lib clock0 (JInt 1704067200000) =
     Inr \<lparr>wall_us = 1704067200000000, utcoffset = None\<rparr> \<and>
   parse_ws_timestamp basic_lib clock0 (JStr ''2024-01-01T00:00:00Z'') =
     Inr \<lparr>wall_us = 1704067200000000, utcoffset = Some 0\<rparr>"
proof -
  have "iso_basic ''2024-01-01T00:00:00+00:00'' =
          Some \<lparr>wall_us = 1704067200000000, utcoffset = Some 0\<rparr>"
    by (simp add: iso_basic_def iso_offset_def number_def digit_of_def days_in_month_def
          days_from_civil_def)
  then have "parse_ws_timestamp basic_lib clock0 (JStr ''2024-01-01T00:00:00Z'') =
     Inr \<lparr>wall_us = 1704067200000000, utcoffset = Some 0\<rparr>"
    by (simp add: basic_lib_def replace_Z_def)
  moreover have "parse_ws_timestamp basic_lib clock0 (JInt 1000000000000000000) = Inl ValueError"
    by (simp add: basic_lib_def basic_utcfromtimestamp_def py_round_def)
  moreover have "parse_ws_timestamp basic_lib clock0 (JInt 1704067200000) =
     Inr \<lparr>wall_us = 1704067200000000, utcoffset = None\<rparr>"
    by (simp add: basic_lib_def basic_utcfromtimestamp_def py_round_def)
  ultimately show ?thesis
    by (simp only: simp_thms)
qed

text \<open>Further out the library raises other errors.\<close>

lemma parse_ws_timestamp_other_errors:
  "parse_ws_timestamp basic_lib clock0 (JInt (10 ^ 20)) = Inl OSError"
  "parse_ws_timestamp basic_lib clock0 (JInt (10 ^ 30)) = Inl OverflowError"
  by (simp_all add: basic_lib_def basic_utcfromtimestamp_def py_round_def)

section \<open>Writes before initialization\<close>

lemma save_before_init_raises:
  assumes "db r = None"
  shows "save_snapshots lib r ms = Inl not_initialized"
    and "save_outcome_snapshots r os = Inl not_initialized"
    and "save_orderbook_snapshots r obs = Inl not_initialized"
    and "save_trade_snapshots r trs = Inl not_initialized"
    and "save_resolution_snapshots r rss = Inl not_initialized"
  using assms
  by (simp_all add: save_snapshots_def save_outcome_snapshots_def
        save_orderbook_snapshots_def save_trade_snapshots_def save_resolution_snapshots_def)

lemma save_price_change_events_before_init:
  "db r = None \<Longrightarrow> save_price_change_events r es = Inr r"
  by (simp add: save_price_change_events_def)

lemma save_price_change_events_after_init:
  "save_price_change_events (init_db d new_recorder) [event0] =
     Inr (init_db (d\<lparr>price_change_events :=
                      price_change_events d @ [price_change_row_of event0]\<rparr>) new_recorder)"
  by (simp add: save_price_change_events_def init_db_def new_recorder_def)

text \<open>
  Claim C1. Every save operation called before the store is initialized fails with the
  precondition error and writes no row. Five of the six do (\<open>save_before_init_raises\<close>);
  \<open>save_price_change_events\<close> on a fresh recorder returns normally and leaves it as
  it was, where \<open>save_snapshots\<close> raises.
\<close>

theorem save_price_change_events_silent:
  "save_price_change_events new_recorder [event0] = Inr new_recorder \<and>
   save_snapshots lib new_recorder [] = Inl not_initialized"
  by (simp add: save_price_change_events_def save_snapshots_def new_recorder_def)

section \<open>Price change events\<close>

lemma is_strD: "is_str v \<Longrightarrow> \<exists>s. v = JStr s"
  by (cases v) simp_all

lemma float_if_truthy_None:
  "float_if_truthy lib v = Inr x \<Longrightarrow> (x = None) = (\<not> py_truthy v)"
  by (auto simp: float_if_truthy_def and_then_eq_Inr split: if_splits)

lemma price_change_loop_Inr:
  assumes "price_change_loop lib t mid bb ba changes acc = Inr evs"
  shows "\<exists>new. evs = acc @ new \<and> length new = length changes \<and>
           list_all (\<lambda>e. pc_timestamp e = t \<and> JStr (pc_market_id e) = mid \<and>
                          float_if_truthy lib bb = Inr (pc_best_bid e) \<and>
                          float_if_truthy lib ba = Inr (pc_best_ask e)) new"
  using assms
proof (induction changes arbitrary: acc)
  case Nil
  then show ?case by simp
next
  case (Cons c changes)
  from Cons.prems obtain tid p sz sd vb va e
    where vb: "float_if_truthy lib bb = Inr vb"
      and va: "float_if_truthy lib ba = Inr va"
      and e: "new_price_change_event t mid tid p sz sd vb va = Inr e"
      and rest: "price_change_loop lib t mid bb ba changes (acc @ [e]) = Inr evs"
    by (auto simp: and_then_eq_Inr)
  from e have props: "pc_timestamp e = t \<and> JStr (pc_market_id e) = mid \<and>
      pc_best_bid e = vb \<and> pc_best_ask e = va"
    by (auto simp: new_price_change_event_def and_then_eq_Inr dest: validate_str_Inr)
  from Cons.IH [OF rest] obtain new where new: "evs = (acc @ [e]) @ new"
      "length new = length changes"
      "list_all (\<lambda>e. pc_timestamp e = t \<and> JStr (pc_market_id e) = mid \<and>
                          float_if_truthy lib bb = Inr (pc_best_bid e) \<and>
                          float_if_truthy lib ba = Inr (pc_best_ask e)) new"
    by blast
  show ?case
    using new props vb va by (intro exI [of _ "e # new"]) simp
qed

lemma wf_changeD:
  assumes "wf_change lib c"
  shows "\<exists>kvs tid sd p sz. c = JObj kvs \<and>
           dict_get kvs ''asset_id'' (JStr []) = JStr tid \<and>
           dict_get kvs ''side'' (JStr []) = JStr sd \<and>
           py_float lib (dict_get kvs ''price'' (JInt 0)) = Inr p \<and>
           py_float lib (dict_get kvs ''size'' (JInt 0)) = Inr sz"
proof (cases c)
  case (JObj kvs)
  with assms show ?thesis
    by (auto simp: wf_change_def dest!: is_strD not_islD)
qed (use assms in \<open>simp_all add: wf_change_def\<close>)

lemma price_change_loop_total:
  assumes "list_all (wf_change lib) changes"
    and "\<not> isl (float_if_truthy lib bb)" and "\<not> isl (float_if_truthy lib ba)"
  shows "\<not> isl (price_change_loop lib t (JStr mid) bb ba changes acc)"
  using assms(1)
proof (induction changes arbitrary: acc)
  case Nil
  show ?case by simp
next
  case (Cons c changes)
  from Cons.prems have "wf_change lib c"
    by simp
  from wf_changeD [OF this] obtain kvs tid sd p sz where c: "c = JObj kvs"
    and tid: "dict_get kvs ''asset_id'' (JStr []) = JStr tid"
    and sd: "dict_get kvs ''side'' (JStr []) = JStr sd"
    and p: "py_float lib (dict_get kvs ''price'' (JInt 0)) = Inr p"
    and sz: "py_float lib (dict_get kvs ''size'' (JInt 0)) = Inr sz"
    by blast
  from not_islD [OF assms(2)] obtain vb where vb: "float_if_truthy lib bb = Inr vb"
    by blast
  from not_islD [OF assms(3)] obtain va where va: "float_if_truthy lib ba = Inr va"
    by blast
  from Cons.prems have "list_all (wf_change lib) changes"
    by simp
  from Cons.IH [OF this] show ?case
    by (simp add: c tid sd p sz vb va new_price_change_event_def)
qed


lemma float_if_truthy_Inr:
  "float_if_truthy lib v = Inr x \<Longrightarrow>
     x = (if py_truthy v then Some (projr (py_float lib v)) else None)"
  by (auto simp: float_if_truthy_def and_then_eq_Inr split: if_splits)

lemma float_0_44: "float_of_str basic_lib ''0.44'' = Some (11 / 25)"
  by (simp add: basic_lib_def dec_float_def dec_unsigned_def number_def digit_of_def)

lemma float_0_46: "float_of_str basic_lib ''0.46'' = Some (23 / 50)"
  by (simp add: basic_lib_def dec_float_def dec_unsigned_def number_def digit_of_def)

lemma float_0_45: "float_of_str basic_lib ''0.45'' = Some (9 / 20)"
  by (simp add: basic_lib_def dec_float_def dec_unsigned_def number_def digit_of_def)

lemma float_0_55: "float_of_str basic_lib ''0.55'' = Some (11 / 20)"
  by (simp add: basic_lib_def dec_float_def dec_unsigned_def number_def digit_of_def)

lemma float_10: "float_of_str basic_lib ''10'' = Some 10"
  by (simp add: basic_lib_def dec_float_def dec_unsigned_def number_def digit_of_def)

lemmas float_literals = float_0_44 float_0_45 float_0_46 float_0_55 float_10

text \<open>
  Claim C7, as stated, fails: a message whose message-level best bid is the number 0
  yields two events that carry \<open>None\<close> as best bid, not the message-level value.
\<close>

theorem handle_price_change_counterexample:
  "dict_get message_zero_bid ''best_bid'' JNull = JInt 0 \<and>
   handle_price_change basic_lib clock0 message_zero_bid =
     Inr [\<lparr>pc_timestamp = \<lparr>wall_us = 1700000000000000, utcoffset = None\<rparr>,
           pc_market_id = ''0xabc'', pc_token_id = ''101'', pc_price = 9 / 20,
           pc_size = 10, pc_side = ''BUY'', pc_best_bid = None,
           pc_best_ask = Some (23 / 50)\<rparr>,
          \<lparr>pc_timestamp = \<lparr>wall_us = 1700000000000000, utcoffset = None\<rparr>,
           pc_market_id = ''0xabc'', pc_token_id = ''102'', pc_price = 11 / 20,
           pc_size = 20, pc_side = ''SELL'', pc_best_bid = None,
           pc_best_ask = Some (23 / 50)\<rparr>]"
  by (simp add: message_zero_bid_def dict_get_def handle_price_change_def
        parse_ws_timestamp_1700000000000 float_if_truthy_def new_price_change_event_def
        float_literals del: parse_ws_timestamp.simps(3))

text \<open>
  Claim C7, amended. A price change message whose \<open>price_changes\<close> is a list of \<open>n\<close>
  well-formed entries, whose \<open>market\<close> is a string and whose timestamp and best bid and
  ask decode, yields exactly \<open>n\<close> events; each carries the message-level market id,
  and as best bid (ask) the float of the message-level value when that value is truthy and
  \<open>None\<close> when it is absent or falsy.
\<close>

theorem handle_price_change_events:
  assumes "\<not> isl (parse_ws_timestamp lib now (dict_get msg ''timestamp'' JNull))"
    and "dict_get msg ''market'' (JStr []) = JStr mid"
    and "dict_get msg ''price_changes'' (JArr []) = JArr changes"
    and "list_all (wf_change lib) changes"
    and "\<not> isl (float_if_truthy lib (dict_get msg ''best_bid'' JNull))"
    and "\<not> isl (float_if_truthy lib (dict_get msg ''best_ask'' JNull))"
  shows "\<exists>evs. handle_price_change lib now msg = Inr evs \<and>
           length evs = length changes \<and>
           list_all (\<lambda>e. pc_market_id e = mid \<and>
                          pc_best_bid e =
                            (if py_truthy (dict_get msg ''best_bid'' JNull)
                             then Some (projr (py_float lib (dict_get msg ''best_bid'' JNull)))
                             else None) \<and>
                          pc_best_ask e =
                            (if py_truthy (dict_get msg ''best_ask'' JNull)
                             then Some (projr (py_float lib (dict_get msg ''best_ask'' JNull)))
                             else None)) evs"
proof -
  from not_islD [OF assms(1)] obtain t
    where t: "parse_ws_timestamp lib now (dict_get msg ''timestamp'' JNull) = Inr t"
    by blast
  have run: "handle_price_change lib now msg =
      price_change_loop lib t (JStr mid) (dict_get msg ''best_bid'' JNull)
        (dict_get msg ''best_ask'' JNull) changes []"
    by (simp add: handle_price_change_def t assms(2,3))
  from price_change_loop_total [OF assms(4,5,6), of t mid "[]"] obtain evs
    where evs: "price_change_loop lib t (JStr mid) (dict_get msg ''best_bid'' JNull)
        (dict_get msg ''best_ask'' JNull) changes [] = Inr evs"
    by (auto dest: not_islD)
  from price_change_loop_Inr [OF evs] have len: "length evs = length changes"
    and each: "list_all (\<lambda>e. pc_timestamp e = t \<and> JStr (pc_market_id e) = JStr mid \<and>
                          float_if_truthy lib (dict_get msg ''best_bid'' JNull) =
                            Inr (pc_best_bid e) \<and>
                          float_if_truthy lib (dict_get msg ''best_ask'' JNull) =
                            Inr (pc_best_ask e)) evs"
    by auto
  have "pc_market_id e = mid \<and>
        pc_best_bid e =
          (if py_truthy (dict_get msg ''best_bid'' JNull)
           then Some (projr (py_float lib (dict_get msg ''best_bid'' JNull)))
           else None) \<and>
        pc_best_ask e =
          (if py_truthy (dict_get msg ''best_ask'' JNull)
           then Some (projr (py_float lib (dict_get msg ''best_ask'' JNull)))
           else None)" if "e \<in> set evs" for e
  proof -
    from each that have e: "JStr (pc_market_id e) = JStr mid"
      "float_if_truthy lib (dict_get msg ''best_bid'' JNull) = Inr (pc_best_bid e)"
      "float_if_truthy lib (dict_get msg ''best_ask'' JNull) = Inr (pc_best_ask e)"
      by (simp_all add: list_all_iff)
    from e(1) float_if_truthy_Inr [OF e(2)] float_if_truthy_Inr [OF e(3)]
    show ?thesis
      by simp
  qed
  with run evs len show ?thesis
    by (simp add: list_all_iff)
qed

theorem handle_price_change_events_witness:
  "\<exists>evs. handle_price_change basic_lib clock0 message_ok = Inr evs \<and>
      length evs = 2 \<and>
      list_all (\<lambda>e. pc_market_id e = ''0xabc'' \<and> pc_best_bid e = Some (11 / 25) \<and>
                     pc_best_ask e = Some (23 / 50)) evs"
proof -
  have ts: "\<not> isl (parse_ws_timestamp basic_lib clock0 (dict_get message_ok ''timestamp'' JNull))"
    by (simp add: message_ok_def dict_get_def parse_ws_timestamp_1700000000000
          del: parse_ws_timestamp.simps(3))
  have mid: "dict_get message_ok ''market'' (JStr []) = JStr ''0xabc''"
    by (simp add: message_ok_def dict_get_def)
  have ch: "dict_get message_ok ''price_changes'' (JArr []) =
      JArr [JObj [(''asset_id'', JStr ''101''), (''price'', JStr ''0.45''),
                  (''size'', JStr ''10''), (''side'', JStr ''BUY'')],
            JObj [(''asset_id'', JStr ''102''), (''price'', JStr ''0.55''),
                  (''size'', JInt 20), (''side'', JStr ''SELL'')]]"
    by (simp add: message_ok_def dict_get_def)
  have wf: "list_all (wf_change basic_lib)
      [JObj [(''asset_id'', JStr ''101''), (''price'', JStr ''0.45''),
             (''size'', JStr ''10''), (''side'', JStr ''BUY'')],
       JObj [(''asset_id'', JStr ''102''), (''price'', JStr ''0.55''),
             (''size'', JInt 20), (''side'', JStr ''SELL'')]]"
    by (simp add: wf_change_def dict_get_def float_literals)
  have bb: "dict_get message_ok ''best_bid'' JNull = JStr ''0.44''"
    by (simp add: message_ok_def dict_get_def)
  have ba: "dict_get message_ok ''best_ask'' JNull = JStr ''0.46''"
    by (simp add: message_ok_def dict_get_def)
  have fb: "\<not> isl (float_if_truthy basic_lib (dict_get message_ok ''best_bid'' JNull))"
    by (simp add: bb float_if_truthy_def float_literals)
  have fa: "\<not> isl (float_if_truthy basic_lib (dict_get message_ok ''best_ask'' JNull))"
    by (simp add: ba float_if_truthy_def float_literals)
  from handle_price_change_events [OF ts mid ch wf fb fa]
  show ?thesis
    by (simp add: bb ba float_literals numeral_2_eq_2)
qed

text \<open>
  Claim C10. Every event emitted for a price change message carries \<open>None\<close> as best
  bid (ask) when the message-level field is falsy (absent, numeric zero, the empty
  string), and a value other than \<open>None\<close> only when the field is truthy.
\<close>

theorem handle_price_change_falsy_best:
  assumes "handle_price_change lib now msg = Inr evs"
  shows "list_all (\<lambda>e. (pc_best_bid e = None) = (\<not> py_truthy (dict_get msg ''best_bid'' JNull)) \<and>
                        (pc_best_ask e = None) = (\<not> py_truthy (dict_get msg ''best_ask'' JNull)))
           evs"
proof -
  from assms obtain t changes
    where "price_change_loop lib t (dict_get msg ''market'' (JStr []))
             (dict_get msg ''best_bid'' JNull) (dict_get msg ''best_ask'' JNull) changes [] =
           Inr evs"
    by (auto simp: handle_price_change_def and_then_eq_Inr)
  from price_change_loop_Inr [OF this] show ?thesis
    by (auto simp: list_all_iff dest: float_if_truthy_None)
qed


text \<open>A best bid of \<open>0.0\<close> and an empty best ask both come out as \<open>None\<close>.\<close>

theorem handle_price_change_falsy_best_witness:
  "handle_price_change basic_lib clock0 message_empty_ask =
     Inr [\<lparr>pc_timestamp = clock0,
           pc_market_id = ''0xabc'', pc_token_id = ''101'', pc_price = 9 / 20,
           pc_size = 10, pc_side = ''BUY'', pc_best_bid = None,
           pc_best_ask = None\<rparr>] \<and>
   dict_get message_empty_ask ''best_bid'' JNull = JFloat 0 \<and>
   dict_get message_empty_ask ''best_ask'' JNull = JStr []"
proof -
  have run: "handle_price_change basic_lib clock0 message_empty_ask =
     Inr [\<lparr>pc_timestamp = clock0,
           pc_market_id = ''0xabc'', pc_token_id = ''101'', pc_price = 9 / 20,
           pc_size = 10, pc_side = ''BUY'', pc_best_bid = None,
           pc_best_ask = None\<rparr>]"
    by (simp add: message_empty_ask_def dict_get_def handle_price_change_def
          float_if_truthy_def new_price_change_event_def float_literals)
  from handle_price_change_falsy_best [OF run] run
  show ?thesis
    by (simp add: message_empty_ask_def dict_get_def)
qed

section \<open>Order book snapshots\<close>

lemma orderbook_loop_eq:
  assumes "list_all (wf_level lib) entries"
  shows "orderbook_loop lib ts mid tid side k entries acc =
           Inr (acc @ map (level_record lib ts mid tid side) (enumerate k entries))"
  using assms
proof (induction entries arbitrary: k acc)
  case Nil
  show ?case by simp
next
  case (Cons e entries)
  from Cons.prems obtain p sz
    where p: "and_then (py_subscript e ''price'') (py_float lib) = Inr p"
      and sz: "and_then (py_subscript e ''size'') (py_float lib) = Inr sz"
    by (auto simp: wf_level_def dest!: not_islD)
  from Cons.prems have "list_all (wf_level lib) entries"
    by simp
  from Cons.IH [OF this] show ?case
    by (simp add: p sz level_record_def)
qed

lemma create_orderbook_snapshots_eq:
  assumes "dict_get book ''bids'' (JArr []) = JArr bids"
    and "dict_get book ''asks'' (JArr []) = JArr asks"
    and "list_all (wf_level lib) (kept d bids)"
    and "list_all (wf_level lib) (kept d asks)"
  shows "create_orderbook_snapshots lib ts mid tid book d =
           Inr (map (level_record lib ts mid tid ''bid'') (enumerate 0 (kept d bids)) @
                map (level_record lib ts mid tid ''ask'') (enumerate 0 (kept d asks)))"
proof (cases "0 < d")
  case True
  with assms(3,4) have "list_all (wf_level lib) (take (nat d) bids)"
    and "list_all (wf_level lib) (take (nat d) asks)"
    by (simp_all add: kept_def)
  then show ?thesis
    using True by (simp add: create_orderbook_snapshots_def assms(1,2) orderbook_loop_eq kept_def)
next
  case False
  with assms(3,4) have "list_all (wf_level lib) bids" and "list_all (wf_level lib) asks"
    by (simp_all add: kept_def)
  then show ?thesis
    using False by (simp add: create_orderbook_snapshots_def assms(1,2) orderbook_loop_eq kept_def)
qed

lemma levels_of_side:
  "map ob_level (map (level_record lib ts mid tid side) (enumerate 0 xs)) =
     map int [0 ..< length xs]"
proof -
  have "map ob_level (map (level_record lib ts mid tid side) ys) = map int (map fst ys)" for ys
    by (simp add: level_record_def)
  then show ?thesis
    by (simp only: map_fst_enumerate) simp
qed

text \<open>
  Claim C8. For an order book whose kept levels are well-formed and every depth \<open>d\<close>,
  \<open>create_orderbook_snapshots\<close> with \<open>d > 0\<close> emits \<open>min d (number of supplied levels)\<close>
  records per side, at the consecutive levels from 0, and with \<open>d = 0\<close> (or below) one
  record per supplied level.
\<close>

theorem create_orderbook_snapshots_depth:
  assumes "dict_get book ''bids'' (JArr []) = JArr bids"
    and "dict_get book ''asks'' (JArr []) = JArr asks"
    and "list_all (wf_level lib) (kept d bids)"
    and "list_all (wf_level lib) (kept d asks)"
  shows "\<exists>snaps. create_orderbook_snapshots lib ts mid tid book d = Inr snaps \<and>
           map ob_level (filter (\<lambda>s. ob_side s = ''bid'') snaps) =
             map int [0 ..< (if 0 < d then min (nat d) (length bids) else length bids)] \<and>
           map ob_level (filter (\<lambda>s. ob_side s = ''ask'') snaps) =
             map int [0 ..< (if 0 < d then min (nat d) (length asks) else length asks)] \<and>
           list_all (\<lambda>s. ob_side s = ''bid'' \<or> ob_side s = ''ask'') snaps"
proof -
  have side: "ob_side (level_record lib ts mid tid sd ie) = sd" for sd ie
    by (simp add: level_record_def)
  have fb: "filter (\<lambda>s. ob_side s = ''bid'')
              (map (level_record lib ts mid tid ''bid'') xs @
               map (level_record lib ts mid tid ''ask'') ys) =
            map (level_record lib ts mid tid ''bid'') xs" for xs ys
    by (simp add: filter_map comp_def side)
  have fa: "filter (\<lambda>s. ob_side s = ''ask'')
              (map (level_record lib ts mid tid ''bid'') xs @
               map (level_record lib ts mid tid ''ask'') ys) =
            map (level_record lib ts mid tid ''ask'') ys" for xs ys
    by (simp add: filter_map comp_def side)
  have len: "length (kept d xs) = (if 0 < d then min (nat d) (length xs) else length xs)"
    for xs :: "json list"
    by (simp add: kept_def min.commute)
  let ?snaps = "map (level_record lib ts mid tid ''bid'') (enumerate 0 (kept d bids)) @
                map (level_record lib ts mid tid ''ask'') (enumerate 0 (kept d asks))"
  have run: "create_orderbook_snapshots lib ts mid tid book d = Inr ?snaps"
    by (rule create_orderbook_snapshots_eq [OF assms])
  have bid: "map ob_level (filter (\<lambda>s. ob_side s = ''bid'') ?snaps) =
             map int [0 ..< (if 0 < d then min (nat d) (length bids) else length bids)]"
    by (simp only: fb levels_of_side len)
  have ask: "map ob_level (filter (\<lambda>s. ob_side s = ''ask'') ?snaps) =
             map int [0 ..< (if 0 < d then min (nat d) (length asks) else length asks)]"
    by (simp only: fa levels_of_side len)
  have sides: "list_all (\<lambda>s. ob_side s = ''bid'' \<or> ob_side s = ''ask'') ?snaps"
    by (auto simp: list_all_iff side)
  from run bid ask sides show ?thesis
    by blast
qed

text \<open>Depth 5 and eight supplied bid levels: five bid records, at levels 0 to 4.\<close>

theorem create_orderbook_snapshots_depth_witness:
  "\<exists>snaps. create_orderbook_snapshots basic_lib clock0 ''0xabc'' ''101'' book0 5 = Inr snaps \<and>
      map ob_level (filter (\<lambda>s. ob_side s = ''bid'') snaps) = [0, 1, 2, 3, 4] \<and>
      map ob_level (filter (\<lambda>s. ob_side s = ''ask'') snaps) = [0, 1]"
proof -
  let ?bids = "[JObj [(''price'', JStr ''0.44''), (''size'', JStr ''10'')],
               JObj [(''price'', JStr ''0.43''), (''size'', JStr ''10'')],
               JObj [(''price'', JStr ''0.42''), (''size'', JStr ''10'')],
               JObj [(''price'', JStr ''0.41''), (''size'', JStr ''10'')],
               JObj [(''price'', JStr ''0.40''), (''size'', JStr ''10'')],
               JObj [(''price'', JStr ''0.39''), (''size'', JStr ''10'')],
               JObj [(''price'', JStr ''0.38''), (''size'', JStr ''10'')],
               JObj [(''price'', JStr ''0.37''), (''size'', JStr ''10'')]]"
  let ?asks = "[JObj [(''price'', JStr ''0.46''), (''size'', JInt 5)],
               JObj [(''price'', JFloat (47 / 100)), (''size'', JInt 7)]]"
  have b: "dict_get book0 ''bids'' (JArr []) = JArr ?bids"
    by (simp add: book0_def dict_get_def)
  have a: "dict_get book0 ''asks'' (JArr []) = JArr ?asks"
    by (simp add: book0_def dict_get_def)
  have wb: "list_all (wf_level basic_lib) (kept 5 ?bids)"
    by (simp add: kept_def wf_level_def basic_lib_def dec_float_def dec_unsigned_def
          number_def digit_of_def)
  have wa: "list_all (wf_level basic_lib) (kept 5 ?asks)"
    by (simp add: kept_def wf_level_def basic_lib_def dec_float_def dec_unsigned_def
          number_def digit_of_def)
  have u5: "[0 ..< 5] = [0, 1, 2, 3, 4]" and u2: "[0 ..< 2] = [0, 1]"
    by (simp_all add: upt_rec)
  from create_orderbook_snapshots_depth [OF b a wb wa, of clock0 "''0xabc''" "''101''"]
  obtain snaps
    where "create_orderbook_snapshots basic_lib clock0 ''0xabc'' ''101'' book0 5 = Inr snaps"
      and "map ob_level (filter (\<lambda>s. ob_side s = ''bid'') snaps) = [0, 1, 2, 3, 4]"
      and "map ob_level (filter (\<lambda>s. ob_side s = ''ask'') snaps) = [0, 1]"
    by (auto simp: u5 u2)
  then show ?thesis
    by (intro exI [of _ snaps]) simp
qed

end
